theory Spec2Isabelle
  imports Complex_Main "HOL-Library.Word" "HOL-Library.Log_Nat"
begin

unbundle bit_operations_syntax

section \<open>JavaScript values used by the capsule code\<close>

text \<open>
  A JavaScript string is modelled as a \<^typ>\<open>string\<close>; one \<^typ>\<open>char\<close> stands for one
  code unit and \<open>charCodeAt\<close> is \<^term>\<open>of_char\<close> (a \<^typ>\<open>char\<close> has 256 values, so
  the strings covered are those of code units below 256).  A \<open>Record<string, string>\<close> is a
  map from keys to values.  An optional property (\<open>city?: string\<close>) is an \<open>option\<close>,
  with \<open>None\<close> for \<open>undefined\<close>.
\<close>

type_synonym claims = "string \<rightharpoonup> string"

datatype js_error = TypeError | RangeError | SyntaxError | Error string

text \<open>Truthiness of an optional string: \<open>undefined\<close> and \<open>""\<close> are falsy.\<close>

fun truthy_str :: "string option \<Rightarrow> bool" where
  "truthy_str None = False"
| "truthy_str (Some s) = (s \<noteq> [])"

text \<open>\<open>x || d\<close> on an optional string \<open>x\<close> and a string \<open>d\<close>.\<close>

fun or_else :: "string option \<Rightarrow> string \<Rightarrow> string" where
  "or_else None d = d"
| "or_else (Some s) d = (if s \<noteq> [] then s else d)"

text \<open>\<open>Number.prototype.toString(16)\<close> and \<open>toString()\<close> on integers.\<close>

definition hexdigit :: "int \<Rightarrow> char" where
  "hexdigit n = ''0123456789abcdef'' ! nat (n mod 16)"

function toString16 :: "int \<Rightarrow> string" where
  "toString16 n = (if n < 16 then [hexdigit n] else toString16 (n div 16) @ [hexdigit n])"
  by pat_completeness auto
termination
  by (relation "measure nat") auto

declare toString16.simps [simp del]

definition decdigit :: "int \<Rightarrow> char" where
  "decdigit n = ''0123456789'' ! nat (n mod 10)"

function toString10 :: "int \<Rightarrow> string" where
  "toString10 n = (if n < 10 then [decdigit n] else toString10 (n div 10) @ [decdigit n])"
  by pat_completeness auto
termination
  by (relation "measure nat") auto

declare toString10.simps [simp del]

definition int_toString :: "int \<Rightarrow> string" where
  "int_toString i = (if i < 0 then CHR ''-'' # toString10 (- i) else toString10 i)"

text \<open>
  The parts of the JavaScript platform the code calls and that are not part of this
  repository: the formatting methods of a valid \<open>Date\<close> (which depend on locale and time
  zone), the printing of floating-point numbers, and \<open>Platform.OS\<close>.  They are taken as
  parameters.  A time value is the number of milliseconds since the epoch.
\<close>

record js_env =
  toISOString :: "int \<Rightarrow> string"
  toLocaleString :: "int \<Rightarrow> string"
  toLocaleDateString :: "int \<Rightarrow> string"
  toLocaleMonthYear :: "int \<Rightarrow> string"
  getFullYear :: "int \<Rightarrow> int"
  getHours :: "int \<Rightarrow> int"
  weekStart :: "int \<Rightarrow> int"
  numToString :: "rat \<Rightarrow> string"
  toFixed6 :: "rat \<Rightarrow> string"
  platformOS :: string

text \<open>A fixed environment for evaluating the functions on concrete inputs.\<close>

definition sample_env :: js_env where
  "sample_env =
     \<lparr>toISOString = (\<lambda>t. ''iso:'' @ int_toString t),
      toLocaleString = (\<lambda>t. ''date:'' @ int_toString (t div 86400000) @ '', ms:'' @ int_toString (t mod 86400000)),
      toLocaleDateString = (\<lambda>t. ''date:'' @ int_toString (t div 86400000)),
      toLocaleMonthYear = (\<lambda>t. ''month:'' @ int_toString (t div 2592000000)),
      getFullYear = (\<lambda>t. 1970 + t div 31536000000),
      getHours = (\<lambda>t. (t div 3600000) mod 24),
      weekStart = (\<lambda>t. t - (t mod 604800000)),
      numToString = (\<lambda>r. int_toString \<lfloor>r\<rfloor>),
      toFixed6 = (\<lambda>r. int_toString \<lfloor>r\<rfloor> @ ''.000000''),
      platformOS = ''ios''\<rparr>"

section \<open>Web3SaltGenerator.tsx: hash, salts and commitments\<close>

text \<open>
  \<open>generateSimpleHash\<close>: \<open>hash\<close> is kept in the int32 range by \<open>hash & hash\<close>; the
  intermediate \<open>((hash << 5) - hash) + char\<close> is exact in double arithmetic, so each
  round is the 32-bit wrap-around of \<open>hash * 32 - hash + char\<close>.  \<open>Math.abs\<close> is taken
  on the signed reading (\<open>Math.abs(-2^31) = 2^31\<close>, no overflow on a double).
\<close>

definition hash_step :: "32 word \<Rightarrow> char \<Rightarrow> 32 word" where
  "hash_step hash c = (push_bit 5 hash - hash) + of_nat (of_char c)"

fun hash_loop :: "32 word \<Rightarrow> string \<Rightarrow> 32 word" where
  "hash_loop hash [] = hash"
| "hash_loop hash (c # cs) = hash_loop (hash_step hash c) cs"

definition generateSimpleHash :: "string \<Rightarrow> string" where
  "generateSimpleHash input = toString16 \<bar>sint (hash_loop 0 input)\<bar>"

definition isDigit :: "char \<Rightarrow> bool" where
  "isDigit c = (c \<in> set ''0123456789'')"

text \<open>
  \<open>Math.random()\<close> returns a double in \<open>[0, 1)\<close>.  Such a double is \<open>m / 2^k\<close> with a
  significand \<open>m < 2^53\<close>, \<open>k \<le> 1074\<close> and \<open>m < 2^k\<close>; a draw is the pair \<open>(m, k)\<close>.
\<close>

type_synonym draw = "int \<times> nat"

definition is_unit_double :: "draw \<Rightarrow> bool" where
  "is_unit_double d = (0 \<le> fst d \<and> fst d < 2 ^ 53 \<and> snd d \<le> 1074 \<and> fst d < 2 ^ snd d)"

text \<open>
  \<open>Math.random() * c\<close> for a small positive integer \<open>c\<close> is an IEEE 754 multiplication
  of doubles: the exact product \<open>m * c / 2^k\<close>, rounded to 53 significant bits, to the
  nearest, ties to the even significand.  \<open>bitlen p\<close> is the number of bits of \<open>p\<close>,
  so \<open>s\<close> is the number of bits to drop.  The product is at least as large as the draw and
  below 16: it neither underflows nor overflows.
\<close>

definition round_half_even :: "int \<Rightarrow> nat \<Rightarrow> int" where
  "round_half_even p s =
     (let q = p div 2 ^ s; r = p mod 2 ^ s
      in if 2 * r > 2 ^ s \<or> (2 * r = 2 ^ s \<and> odd q) then q + 1 else q)"

definition double_times :: "draw \<Rightarrow> int \<Rightarrow> rat" where
  "double_times d c =
     (let p = fst d * c; s = nat (bitlen p - 53)
      in of_int (round_half_even p s * 2 ^ s) / 2 ^ snd d)"

text \<open>
  \<open>generateSalt\<close>.  \<open>Math.random()\<close> is a sequence of draws \<open>rng 0, rng 1, ...\<close> and the
  position of the next draw is threaded through.
\<close>

type_synonym rng = "nat \<Rightarrow> draw"

primrec salt_loop :: "rng \<Rightarrow> nat \<Rightarrow> nat \<Rightarrow> string" where
  "salt_loop rng p 0 = []"
| "salt_loop rng p (Suc k) =
     int_toString \<lfloor>double_times (rng p) 10\<rfloor> @ salt_loop rng (Suc p) k"

definition generateSalt :: "rng \<Rightarrow> nat \<Rightarrow> string \<times> nat" where
  "generateSalt rng p =
     (let len = nat (6 + \<lfloor>double_times (rng p) 4\<rfloor>)
      in (salt_loop rng (Suc p) len, Suc p + len))"

definition poseidonCommitment :: "string \<Rightarrow> string \<Rightarrow> string" where
  "poseidonCommitment v salt = (let combined = v @ salt in generateSimpleHash combined)"

text \<open>\<open>generateAllSalts\<close>: one fresh salt per key, in the order of the object literal.\<close>

definition salt_keys :: "string list" where
  "salt_keys =
     [''date_exact'', ''date_day'', ''date_month'', ''date_year'',
      ''location_exact'', ''location_city'', ''location_country'', ''location_continent'',
      ''device_info'', ''device_platform'', ''device_type'',
      ''image_hash'', ''image_cid'', ''time_lock'', ''receiver_lock'']"

fun salts_for :: "rng \<Rightarrow> nat \<Rightarrow> string list \<Rightarrow> claims \<times> nat" where
  "salts_for rng p [] = (Map.empty, p)"
| "salts_for rng p (k # ks) =
     (let (s, p') = generateSalt rng p; (m, p'') = salts_for rng p' ks
      in (m(k \<mapsto> s), p''))"

definition generateAllSalts :: "rng \<Rightarrow> nat \<Rightarrow> claims \<times> nat" where
  "generateAllSalts rng p = salts_for rng p salt_keys"

section \<open>Web3SaltGenerator.tsx: claim derivation\<close>

text \<open>
  \<open>PhotoMetadata.location\<close>.  \<open>generateLocationClaim\<close> takes \<open>location: any\<close>, so the
  coordinates are optional here as well: reading \<open>toFixed\<close> from a missing coordinate
  is a \<open>TypeError\<close>.
\<close>

record photo_location =
  latitude :: "rat option"
  longitude :: "rat option"
  city :: "string option"
  country :: "string option"
  continent :: "string option"

definition generateLocationClaim :: "js_env \<Rightarrow> photo_location option \<Rightarrow> string \<Rightarrow> js_error + string" where
  "generateLocationClaim env loc level =
     (case loc of
        None \<Rightarrow> Inr ''Location not available''
      | Some l \<Rightarrow>
          if level = ''exact'' then
            (case latitude l of
               None \<Rightarrow> Inl TypeError
             | Some la \<Rightarrow>
                 (case longitude l of
                    None \<Rightarrow> Inl TypeError
                  | Some lo \<Rightarrow> Inr (''At '' @ toFixed6 env la @ '', '' @ toFixed6 env lo)))
          else if level = ''city'' then Inr (or_else (city l) ''In local city'')
          else if level = ''country'' then Inr (or_else (country l) ''In authorized country'')
          else if level = ''continent'' then Inr (or_else (continent l) ''In authorized continent'')
          else Inr (case country l of
                      None \<Rightarrow> ''In authorized region''
                    | Some c \<Rightarrow> if c \<noteq> [] then ''In '' @ c else ''In authorized region''))"



text \<open>
  A \<open>Date\<close> object holds a time value or is an \<open>Invalid Date\<close>.  \<open>new Date(t)\<close> of a
  number outside \<open>\<plusminus>8.64e15\<close> is invalid; \<open>toISOString\<close> of an invalid date throws a
  \<open>RangeError\<close>, the other formatting methods return \<open>"Invalid Date"\<close> or \<open>NaN\<close>.
\<close>

datatype jsdate = Date int | InvalidDate

definition newDate :: "int \<Rightarrow> jsdate" where
  "newDate t = (if \<bar>t\<bar> \<le> 8640000000000000 then Date t else InvalidDate)"

fun date_toISOString :: "js_env \<Rightarrow> jsdate \<Rightarrow> js_error + string" where
  "date_toISOString env (Date t) = Inr (toISOString env t)"
| "date_toISOString env InvalidDate = Inl RangeError"

fun date_toLocaleString :: "js_env \<Rightarrow> jsdate \<Rightarrow> string" where
  "date_toLocaleString env (Date t) = toLocaleString env t"
| "date_toLocaleString env InvalidDate = ''Invalid Date''"

fun date_toLocaleDateString :: "js_env \<Rightarrow> jsdate \<Rightarrow> string" where
  "date_toLocaleDateString env (Date t) = toLocaleDateString env t"
| "date_toLocaleDateString env InvalidDate = ''Invalid Date''"

fun date_toLocaleMonthYear :: "js_env \<Rightarrow> jsdate \<Rightarrow> string" where
  "date_toLocaleMonthYear env (Date t) = toLocaleMonthYear env t"
| "date_toLocaleMonthYear env InvalidDate = ''Invalid Date''"

fun date_getFullYear :: "js_env \<Rightarrow> jsdate \<Rightarrow> string" where
  "date_getFullYear env (Date t) = int_toString (getFullYear env t)"
| "date_getFullYear env InvalidDate = ''NaN''"

fun date_getHours :: "js_env \<Rightarrow> jsdate \<Rightarrow> string" where
  "date_getHours env (Date t) = int_toString (getHours env t)"
| "date_getHours env InvalidDate = ''NaN''"

text \<open>\<open>weekStart.setDate(date.getDate() - date.getDay())\<close> on a copy of the date.\<close>

fun date_weekStart :: "js_env \<Rightarrow> jsdate \<Rightarrow> jsdate" where
  "date_weekStart env (Date t) = Date (weekStart env t)"
| "date_weekStart env InvalidDate = InvalidDate"

text \<open>A number in a template literal; a missing coordinate prints as \<open>undefined\<close>.\<close>

fun num_template :: "js_env \<Rightarrow> rat option \<Rightarrow> string" where
  "num_template env None = ''undefined''"
| "num_template env (Some r) = numToString env r"

text \<open>\<open>s.includes(p)\<close>, \<open>s.startsWith(p)\<close>, \<open>s.split(',')[0]\<close>, \<open>s.substring(0, n)\<close>.\<close>

definition startsWith :: "string \<Rightarrow> string \<Rightarrow> bool" where
  "startsWith s p = (take (length p) s = p)"

fun str_includes :: "string \<Rightarrow> string \<Rightarrow> bool" where
  "str_includes [] p = (p = [])"
| "str_includes (c # cs) p = (startsWith (c # cs) p \<or> str_includes cs p)"

definition before_comma :: "string \<Rightarrow> string" where
  "before_comma s = takeWhile (\<lambda>c. c \<noteq> CHR '','') s"

text \<open>The other claim derivers of \<open>Web3SaltGenerator.tsx\<close>.\<close>

definition generateTimeClaim :: "js_env \<Rightarrow> int \<Rightarrow> string \<Rightarrow> string" where
  "generateTimeClaim env ts level =
     (let date = newDate ts in
      if level = ''exact'' then ''At '' @ date_toLocaleString env date
      else if level = ''hour'' then
        ''Within hour of '' @ before_comma (date_toLocaleString env date) @ '' ''
          @ date_getHours env date @ '':00''
      else if level = ''day'' then ''On '' @ date_toLocaleDateString env date
      else if level = ''week'' then
        ''Week of '' @ date_toLocaleDateString env (date_weekStart env date)
      else if level = ''month'' then ''In '' @ date_toLocaleMonthYear env date
      else if level = ''year'' then ''In '' @ date_getFullYear env date
      else ''Within past month'')"

definition generateDeviceClaim :: "string \<Rightarrow> string \<Rightarrow> string" where
  "generateDeviceClaim deviceInfo level =
     (if level = ''devicetype'' then ''From Phone''
      else if level = ''platform'' then
        ''From '' @ (if str_includes deviceInfo ''iOS'' then ''iOS'' else ''Android'') @ '' device''
      else if level = ''imei'' then
        ''From device IMEI: '' @ take 8 (generateSimpleHash deviceInfo) @ ''****''
      else ''From trusted device'')"

definition generateImageContentClaim :: "string \<Rightarrow> string option \<Rightarrow> string" where
  "generateImageContentClaim level ipfs =
     (if level = ''none'' then ''Image content private''
      else if level = ''description'' then ''Image description available''
      else if level = ''image'' then
        (if truthy_str ipfs then ''Image available on IPFS'' else ''Image content revealed'')
      else ''Image content private'')"

section \<open>Web3SaltGenerator.tsx: the data model\<close>

text \<open>
  \<open>PhotoMetadata\<close> (the fields the capsule code reads), \<open>PrivacySettings\<close>,
  \<open>ZKCapsule\<close> and \<open>PrivateVault\<close>.  A level is the string the code switches on.  The
  proof is opaque: its type is a parameter.  Where two interfaces of the source use one
  field name, the second has a prefix here; \<open>proof\<close> is \<open>capsule_proof\<close>.
\<close>

record PhotoMetadata =
  timestamp :: int
  location :: "photo_location option"
  deviceInfo :: string
  photoHash :: string
  ipfsCid :: "string option"

record toggle =
  enabled :: bool

record leveled = toggle +
  level :: string

record timeLock_settings = toggle +
  unlockTime :: "jsdate option"
  lockedData :: string
  lockType :: string

record receiverLock_settings = toggle +
  walletAddress :: string
  encryptedContent :: string

record storage_options =
  storage_type :: "string option"
  storage_walrusBlobId :: "string option"

record PrivacySettings =
  timeProof :: leveled
  locationProof :: leveled
  deviceProof :: leveled
  identityProof :: toggle
  imageReveal :: leveled
  timeLock :: timeLock_settings
  receiverLock :: receiverLock_settings
  storageOptions :: storage_options

record capsule_metadata =
  proof_scheme :: string
  circuit_version :: string
  image_hash :: string
  verification_key :: string
  meta_ipfsCid :: "string option"
  meta_ipfsUrl :: "string option"
  walrusBlobId :: "string option"
  storageType :: "string option"
  created_at :: int

record 'p ZKCapsule =
  capsule_id :: string
  public_claims :: claims
  capsule_proof :: 'p
  metadata :: capsule_metadata

record PrivateVault =
  vault_capsule_id :: string
  commitments :: claims
  salts :: claims
  original_values :: claims

text \<open>
  \<open>AsyncStorage\<close> is an external library: its two operations are parameters, over a
  store \<open>'s\<close>.  Either may reject.  The stored text is \<open>JSON.stringify\<close> of a vault and
  is read back with \<open>JSON.parse\<close>; the store holds the vault itself here.
\<close>

record 's AsyncStorage =
  setItem :: "'s \<Rightarrow> string \<Rightarrow> PrivateVault \<Rightarrow> js_error + 's"
  getItem :: "'s \<Rightarrow> string \<Rightarrow> js_error + PrivateVault option"

text \<open>Two stores for concrete evaluation: one that works, one whose writes are rejected.\<close>

definition memory_storage :: "(string \<rightharpoonup> PrivateVault) AsyncStorage" where
  "memory_storage =
     \<lparr>setItem = (\<lambda>s k v. Inr (s(k \<mapsto> v))), getItem = (\<lambda>s k. Inr (s k))\<rparr>"

definition full_storage :: "(string \<rightharpoonup> PrivateVault) AsyncStorage" where
  "full_storage =
     \<lparr>setItem = (\<lambda>s k v. Inl (Error ''storage full'')), getItem = (\<lambda>s k. Inr (s k))\<rparr>"

section \<open>Web3SaltGenerator.tsx: capsule generation\<close>

text \<open>\<open>value + salts.key\<close>: a missing salt concatenates as \<open>undefined\<close>.\<close>

definition salt_of :: "claims \<Rightarrow> string \<Rightarrow> string" where
  "salt_of sls k = (case sls k of None \<Rightarrow> ''undefined'' | Some s \<Rightarrow> s)"

text \<open>\<open>if (v) m[k] = v\<close> and \<open>if (v) m[k] = poseidonCommitment(v, salts[k])\<close>.\<close>

definition put_claim :: "string \<Rightarrow> string option \<Rightarrow> claims \<Rightarrow> claims" where
  "put_claim k v m = (case v of None \<Rightarrow> m | Some s \<Rightarrow> if s \<noteq> [] then m(k \<mapsto> s) else m)"

definition put_commitment :: "string \<Rightarrow> string option \<Rightarrow> claims \<Rightarrow> claims \<Rightarrow> claims" where
  "put_commitment k v sls m =
     (case v of
        None \<Rightarrow> m
      | Some s \<Rightarrow> if s \<noteq> [] then m(k \<mapsto> poseidonCommitment s (salt_of sls k)) else m)"

definition location_exact_value :: "js_env \<Rightarrow> photo_location \<Rightarrow> string" where
  "location_exact_value env l =
     num_template env (latitude l) @ '', '' @ num_template env (longitude l)"

definition generateCommitments :: "js_env \<Rightarrow> PhotoMetadata \<Rightarrow> claims \<Rightarrow> js_error + claims" where
  "generateCommitments env md sls =
     (let date = newDate (timestamp md) in
      case date_toISOString env date of
        Inl e \<Rightarrow> Inl e
      | Inr isoStr \<Rightarrow>
          let c1 = [''date_exact'' \<mapsto> poseidonCommitment isoStr (salt_of sls ''date_exact'')];
              c2 = c1(''date_day'' \<mapsto>
                     poseidonCommitment (date_toLocaleDateString env date) (salt_of sls ''date_day''));
              c3 = c2(''date_month'' \<mapsto>
                     poseidonCommitment (date_toLocaleMonthYear env date) (salt_of sls ''date_month''));
              c4 = c3(''date_year'' \<mapsto>
                     poseidonCommitment (date_getFullYear env date) (salt_of sls ''date_year''));
              c5 = (case location md of
                      None \<Rightarrow> c4
                    | Some l \<Rightarrow>
                        let d1 = c4(''location_exact'' \<mapsto>
                                   poseidonCommitment (location_exact_value env l)
                                     (salt_of sls ''location_exact''));
                            d2 = put_commitment ''location_city'' (city l) sls d1;
                            d3 = put_commitment ''location_country'' (country l) sls d2
                        in put_commitment ''location_continent'' (continent l) sls d3);
              c6 = c5(''device_info'' \<mapsto>
                     poseidonCommitment (deviceInfo md) (salt_of sls ''device_info''));
              c7 = c6(''device_platform'' \<mapsto>
                     poseidonCommitment (platformOS env) (salt_of sls ''device_platform''));
              c8 = c7(''device_type'' \<mapsto> poseidonCommitment ''Phone'' (salt_of sls ''device_type''));
              c9 = c8(''image_hash'' \<mapsto>
                     poseidonCommitment (photoHash md) (salt_of sls ''image_hash''))
          in Inr (put_commitment ''image_cid'' (ipfsCid md) sls c9))"

text \<open>\<open>generatePublicClaims\<close>, one definition per commented block of the source.\<close>

definition pc_time :: "js_env \<Rightarrow> jsdate \<Rightarrow> leveled \<Rightarrow> claims \<Rightarrow> js_error + claims" where
  "pc_time env date tp pc =
     (if enabled tp then
        (if level tp = ''exact'' then
           (case date_toISOString env date of
              Inl e \<Rightarrow> Inl e
            | Inr isoStr \<Rightarrow> Inr (pc(''date_exact'' \<mapsto> isoStr)))
         else if level tp = ''day'' then Inr (pc(''date_day'' \<mapsto> date_toLocaleDateString env date))
         else if level tp = ''month'' then
           Inr (pc(''date_month'' \<mapsto> date_toLocaleMonthYear env date))
         else if level tp = ''year'' then Inr (pc(''date_year'' \<mapsto> date_getFullYear env date))
         else Inr pc)
      else Inr pc)"

definition pc_location :: "js_env \<Rightarrow> photo_location option \<Rightarrow> leveled \<Rightarrow> claims \<Rightarrow> claims" where
  "pc_location env loc lp pc =
     (case loc of
        None \<Rightarrow> pc
      | Some l \<Rightarrow>
          if enabled lp then
            (if level lp = ''exact'' then pc(''location_exact'' \<mapsto> location_exact_value env l)
             else if level lp = ''city'' then put_claim ''location_city'' (city l) pc
             else if level lp = ''country'' then put_claim ''location_country'' (country l) pc
             else if level lp = ''continent'' then put_claim ''location_continent'' (continent l) pc
             else pc)
          else pc)"

definition pc_device :: "js_env \<Rightarrow> string \<Rightarrow> leveled \<Rightarrow> claims \<Rightarrow> claims" where
  "pc_device env info dp pc =
     (if enabled dp then
        (if level dp = ''devicetype'' then pc(''device_type'' \<mapsto> ''Phone'')
         else if level dp = ''platform'' then pc(''device_platform'' \<mapsto> platformOS env)
         else if level dp = ''imei'' then pc(''device_info'' \<mapsto> info)
         else pc)
      else pc)"

definition pc_identity :: "toggle \<Rightarrow> claims \<Rightarrow> claims" where
  "pc_identity ip pc = (if enabled ip then pc(''identity_verified'' \<mapsto> ''true'') else pc)"

definition pc_image :: "string option \<Rightarrow> leveled \<Rightarrow> claims \<Rightarrow> claims" where
  "pc_image cid ir pc =
     (if enabled ir then
        (if level ir = ''description'' then
           pc(''image_description'' \<mapsto> ''Image description available'')
         else if level ir = ''image'' then put_claim ''image_cid'' cid pc
         else pc)
      else pc)"

definition pc_timeLock :: "js_env \<Rightarrow> timeLock_settings \<Rightarrow> claims \<Rightarrow> js_error + claims" where
  "pc_timeLock env tlk pc =
     (if enabled tlk then
        (case unlockTime tlk of
           None \<Rightarrow> Inr pc
         | Some d \<Rightarrow>
             (case date_toISOString env d of
                Inl e \<Rightarrow> Inl e
              | Inr isoStr \<Rightarrow> Inr (pc(''time_lock_until'' \<mapsto> isoStr, ''time_lock_type'' \<mapsto> lockType tlk))))
      else Inr pc)"

definition pc_receiverLock :: "receiverLock_settings \<Rightarrow> claims \<Rightarrow> claims" where
  "pc_receiverLock rl pc =
     (if enabled rl \<and> walletAddress rl \<noteq> [] then pc(''allowed_address'' \<mapsto> walletAddress rl)
      else pc)"

definition generatePublicClaims :: "js_env \<Rightarrow> PhotoMetadata \<Rightarrow> PrivacySettings \<Rightarrow> js_error + claims" where
  "generatePublicClaims env md ps =
     (let date = newDate (timestamp md) in
      case pc_time env date (timeProof ps) Map.empty of
        Inl e \<Rightarrow> Inl e
      | Inr pc1 \<Rightarrow>
          let pc2 = pc_location env (location md) (locationProof ps) pc1;
              pc3 = pc_device env (deviceInfo md) (deviceProof ps) pc2;
              pc4 = pc_identity (identityProof ps) pc3;
              pc5 = pc_image (ipfsCid md) (imageReveal ps) pc4
          in (case pc_timeLock env (timeLock ps) pc5 of
                Inl e \<Rightarrow> Inl e
              | Inr pc6 \<Rightarrow> Inr (pc_receiverLock (receiverLock ps) pc6)))"

definition generateOriginalValues :: "js_env \<Rightarrow> PhotoMetadata \<Rightarrow> PrivacySettings \<Rightarrow> js_error + claims" where
  "generateOriginalValues env md ps =
     (let date = newDate (timestamp md) in
      case date_toISOString env date of
        Inl e \<Rightarrow> Inl e
      | Inr isoStr \<Rightarrow>
          let v1 = [''date_exact'' \<mapsto> isoStr];
              v2 = v1(''date_day'' \<mapsto> date_toLocaleDateString env date);
              v3 = v2(''date_month'' \<mapsto> date_toLocaleMonthYear env date);
              v4 = v3(''date_year'' \<mapsto> date_getFullYear env date);
              v5 = (case location md of
                      None \<Rightarrow> v4
                    | Some l \<Rightarrow>
                        let w1 = v4(''location_exact'' \<mapsto> location_exact_value env l);
                            w2 = put_claim ''location_city'' (city l) w1;
                            w3 = put_claim ''location_country'' (country l) w2
                        in put_claim ''location_continent'' (continent l) w3);
              v6 = v5(''device_info'' \<mapsto> deviceInfo md);
              v7 = v6(''device_platform'' \<mapsto> platformOS env);
              v8 = v7(''device_type'' \<mapsto> ''Phone'');
              v9 = v8(''image_hash'' \<mapsto> photoHash md);
              v10 = put_claim ''image_cid'' (ipfsCid md) v9;
              v11 = (if enabled (timeLock ps) \<and> lockedData (timeLock ps) \<noteq> []
                     then v10(''time_lock_data'' \<mapsto> lockedData (timeLock ps)) else v10)
          in Inr (if enabled (receiverLock ps) \<and> encryptedContent (receiverLock ps) \<noteq> []
                  then v11(''receiver_lock_data'' \<mapsto> encryptedContent (receiverLock ps))
                  else v11))"

text \<open>
  \<open>storePrivateVault\<close>: the write is inside \<open>try\<close>, and the \<open>catch\<close> block only logs.
  The result is the store after the call and what \<open>console.error\<close> received.
\<close>

definition storePrivateVault ::
  "'s AsyncStorage \<Rightarrow> 's \<Rightarrow> string \<Rightarrow> claims \<Rightarrow> claims \<Rightarrow> claims \<Rightarrow> 's \<times> js_error list" where
  "storePrivateVault A store capsuleId cms sls ovs =
     (let privateVault = \<lparr>vault_capsule_id = capsuleId, commitments = cms, salts = sls,
                           original_values = ovs\<rparr>
      in case setItem A store (''@private_vault_'' @ capsuleId) privateVault of
           Inr store' \<Rightarrow> (store', [])
         | Inl error \<Rightarrow> (store, [error]))"

text \<open>
  The optional trailing parameters of \<open>generateZKCapsule\<close>: the five circuit results
  and the \<open>claims\<close> object.  (\<open>metadataHash\<close> is accepted and never read.)
\<close>

record circuit_results =
  timeWithinMonth :: "bool option"
  locationInRegion :: "bool option"
  deviceTrusted :: "bool option"
  photoAuthentic :: "bool option"
  imageContentRevealed :: "bool option"

record readable_claims =
  time_claim :: "string option"
  location_claim :: "string option"
  device_claim :: "string option"
  authenticity_claim :: "string option"
  image_content_claim :: "string option"

definition bool_toString :: "bool \<Rightarrow> string" where
  "bool_toString b = (if b then ''true'' else ''false'')"

definition put_result :: "string \<Rightarrow> bool option \<Rightarrow> claims \<Rightarrow> claims" where
  "put_result k r pc = (case r of None \<Rightarrow> pc | Some b \<Rightarrow> pc(k \<mapsto> bool_toString b))"

definition add_circuit_results :: "circuit_results \<Rightarrow> claims \<Rightarrow> claims" where
  "add_circuit_results r pc =
     put_result ''image_content_revealed'' (imageContentRevealed r)
       (put_result ''photo_authentic'' (photoAuthentic r)
         (put_result ''device_trusted'' (deviceTrusted r)
           (put_result ''location_in_region'' (locationInRegion r)
             (put_result ''time_within_month'' (timeWithinMonth r) pc))))"

definition add_readable_claims :: "readable_claims option \<Rightarrow> claims \<Rightarrow> claims" where
  "add_readable_claims cl pc =
     (case cl of
        None \<Rightarrow> pc
      | Some c \<Rightarrow>
          put_claim ''image_content_claim'' (image_content_claim c)
            (put_claim ''authenticity_claim'' (authenticity_claim c)
              (put_claim ''device_claim'' (device_claim c)
                (put_claim ''location_claim'' (location_claim c)
                  (put_claim ''time_claim'' (time_claim c) pc)))))"

text \<open>
  \<open>generateZKCapsule\<close>.  \<open>now1\<close> and \<open>now2\<close> are the two readings of \<open>Date.now()\<close>
  (capsule id, default of \<open>created_at\<close>); \<open>rng\<close> and \<open>p\<close> are the random draws.  The
  result is what the call returns or throws, the store after it and the errors logged.
\<close>

definition generateZKCapsule ::
  "js_env \<Rightarrow> 's AsyncStorage \<Rightarrow> rng \<Rightarrow> nat \<Rightarrow> int \<Rightarrow> int \<Rightarrow> 's \<Rightarrow> PhotoMetadata \<Rightarrow> PrivacySettings
     \<Rightarrow> 'p \<Rightarrow> string \<Rightarrow> string option \<Rightarrow> string option \<Rightarrow> int option \<Rightarrow> circuit_results
     \<Rightarrow> readable_claims option \<Rightarrow> (js_error + 'p ZKCapsule) \<times> 's \<times> js_error list" where
  "generateZKCapsule env A rng p now1 now2 store md ps prf verificationKey ipfs ipfsUrl currentTime
     results cl =
     (let capsuleId = generateSimpleHash (photoHash md @ int_toString now1);
          sls = fst (generateAllSalts rng p)
      in case generateOriginalValues env md ps of
           Inl e \<Rightarrow> (Inl e, store, [])
         | Inr originalValues \<Rightarrow>
             (case generateCommitments env md sls of
                Inl e \<Rightarrow> (Inl e, store, [])
              | Inr cm0 \<Rightarrow>
                  let cm1 = (if enabled (timeLock ps) \<and> lockedData (timeLock ps) \<noteq> []
                             then cm0(''time_lock_data'' \<mapsto>
                                    poseidonCommitment (lockedData (timeLock ps))
                                      (salt_of sls ''time_lock''))
                             else cm0);
                      cm2 = (if enabled (receiverLock ps) \<and> encryptedContent (receiverLock ps) \<noteq> []
                             then cm1(''receiver_lock_data'' \<mapsto>
                                    poseidonCommitment (encryptedContent (receiverLock ps))
                                      (salt_of sls ''receiver_lock''))
                             else cm1);
                      (store', logged) = storePrivateVault A store capsuleId cm2 sls originalValues
                  in (case generatePublicClaims env md ps of
                        Inl e \<Rightarrow> (Inl e, store', logged)
                      | Inr pc \<Rightarrow>
                          let publicClaims = add_readable_claims cl (add_circuit_results results pc);
                              capsule =
                                \<lparr>capsule_id = capsuleId,
                                 public_claims = publicClaims,
                                 capsule_proof = prf,
                                 metadata =
                                   \<lparr>proof_scheme = ''circom 2'',
                                    circuit_version = ''multiplier2_v1'',
                                    image_hash = photoHash md,
                                    verification_key = verificationKey,
                                    meta_ipfsCid = ipfs,
                                    meta_ipfsUrl = ipfsUrl,
                                    walrusBlobId = storage_walrusBlobId (storageOptions ps),
                                    storageType = storage_type (storageOptions ps),
                                    created_at =
                                      (case currentTime of
                                         None \<Rightarrow> now2
                                       | Some t \<Rightarrow> if t \<noteq> 0 then t else now2)\<rparr>\<rparr>
                          in (Inr capsule, store', logged))))"

text \<open>
  \<open>generateZKProof\<close>, from the upload result to the call of \<open>generateZKCapsule\<close>:
  the \<open>claims\<close> object, the five circuit results and the verification key.  The upload
  (\<open>upload\<close>: the value assigned to \<open>ipfsCid\<close>, if any) and the proof library's result
  are inputs; \<open>clock k\<close> is the \<open>k\<close>-th reading of \<open>Date.now()\<close>.  An exception is caught
  by the function's own \<open>catch\<close>, which alerts; it is kept as the outcome.
\<close>

definition getIPFSUrl :: "string \<Rightarrow> string" where
  "getIPFSUrl cid = (if cid = [] then [] else ''https://gateway.pinata.cloud/ipfs/'' @ cid)"

definition proof_claims ::
  "js_env \<Rightarrow> PhotoMetadata \<Rightarrow> PrivacySettings \<Rightarrow> string option \<Rightarrow> js_error + readable_claims" where
  "proof_claims env md ps ipfs =
     (case (if enabled (locationProof ps) \<and> location md \<noteq> None
            then generateLocationClaim env (location md) (level (locationProof ps))
            else Inr ''Location not verified'') of
        Inl e \<Rightarrow> Inl e
      | Inr loc_claim \<Rightarrow>
          Inr \<lparr>time_claim =
                 Some (if enabled (timeProof ps)
                       then generateTimeClaim env (timestamp md) (level (timeProof ps))
                       else ''Time not verified''),
               location_claim = Some loc_claim,
               device_claim =
                 Some (if enabled (deviceProof ps)
                       then generateDeviceClaim (deviceInfo md) (level (deviceProof ps))
                       else ''Device not verified''),
               authenticity_claim =
                 Some (if enabled (identityProof ps) then ''Identity verified''
                       else ''Identity not verified''),
               image_content_claim =
                 Some (if enabled (imageReveal ps)
                       then generateImageContentClaim (level (imageReveal ps)) ipfs
                       else ''Image content private'')\<rparr>)"

definition proof_results :: "PhotoMetadata \<Rightarrow> PrivacySettings \<Rightarrow> int \<Rightarrow> circuit_results" where
  "proof_results md ps currentTime =
     (let oneMonthAgo = currentTime - (30 * 24 * 60 * 60 * 1000) in
      \<lparr>timeWithinMonth = Some (enabled (timeProof ps) \<and> timestamp md > oneMonthAgo),
       locationInRegion = Some (enabled (locationProof ps) \<and> location md \<noteq> None),
       deviceTrusted = Some (enabled (deviceProof ps)),
       photoAuthentic = Some (enabled (identityProof ps)),
       imageContentRevealed =
         Some (enabled (imageReveal ps) \<and> level (imageReveal ps) \<noteq> ''none'')\<rparr>)"

definition generateZKProof ::
  "js_env \<Rightarrow> 's AsyncStorage \<Rightarrow> rng \<Rightarrow> nat \<Rightarrow> (nat \<Rightarrow> int) \<Rightarrow> 's \<Rightarrow> PhotoMetadata \<Rightarrow> PrivacySettings
     \<Rightarrow> string option \<Rightarrow> js_error + 'p \<Rightarrow> (js_error + 'p ZKCapsule) \<times> 's \<times> js_error list" where
  "generateZKProof env A rng p clock store md ps upload proofResult =
     (let ipfsUrl = (case upload of
                       None \<Rightarrow> None
                     | Some cid \<Rightarrow> if cid \<noteq> [] then Some (getIPFSUrl cid) else None);
          md' = (if truthy_str upload then md\<lparr>ipfsCid := upload\<rparr> else md);
          currentTime = clock 0
      in case proof_claims env md' ps upload of
           Inl e \<Rightarrow> (Inl e, store, [])
         | Inr cl \<Rightarrow>
             (case proofResult of
                Inl e \<Rightarrow> (Inl e, store, [])
              | Inr prf \<Rightarrow>
                  let verificationKey =
                        generateSimpleHash (''verification_key_'' @ int_toString (clock 1))
                  in generateZKCapsule env A rng p (clock 2) (clock 3) store md' ps prf
                       verificationKey upload ipfsUrl (Some currentTime)
                       (proof_results md' ps currentTime) (Some cl)))"

section \<open>ShareModal.tsx: claim revision\<close>

text \<open>
  The component state the revision reads: the flags \<open>revealedClaims\<close>, the levels
  \<open>selectedLevels\<close>, and a \<open>SavedPhoto\<close> (of which only \<open>zkCapsule\<close> is read).
\<close>

record revealed_claims =
  reveal_time :: bool
  reveal_location :: bool
  reveal_device :: bool
  reveal_authentic :: bool
  reveal_image :: bool

record selected_levels =
  level_time :: string
  level_location :: string

record 'p SavedPhoto =
  photo_id :: string
  photo_timestamp :: int
  zkCapsule :: "'p ZKCapsule"

text \<open>
  \<open>generateUpdatedCapsule\<close>.  Reading \<open>photo.zkCapsule.proof\<close> inside the \<open>try\<close> cannot
  throw (\<open>photo.zkCapsule\<close> has been read just before), so the fallback proof of the
  \<open>catch\<close> block is never used.  \<open>now\<close> is \<open>Date.now()\<close>.
\<close>

definition generateUpdatedCapsule ::
  "int \<Rightarrow> 'p SavedPhoto \<Rightarrow> revealed_claims \<Rightarrow> selected_levels \<Rightarrow> 'p ZKCapsule" where
  "generateUpdatedCapsule now photo revealedClaims selectedLevels =
     (let existingCapsule = zkCapsule photo;
          newPublicClaims =
            (public_claims existingCapsule)
              (''time_within_month'' \<mapsto> (if reveal_time revealedClaims then ''true'' else ''false''),
               ''location_in_region'' \<mapsto>
                  (if reveal_location revealedClaims then ''true'' else ''false''),
               ''device_trusted'' \<mapsto> (if reveal_device revealedClaims then ''true'' else ''false''),
               ''photo_authentic'' \<mapsto>
                  (if reveal_authentic revealedClaims then ''true'' else ''false''),
               ''image_content_revealed'' \<mapsto>
                  (if reveal_image revealedClaims then ''true'' else ''false''),
               ''time_level'' \<mapsto> level_time selectedLevels,
               ''location_level'' \<mapsto> level_location selectedLevels);
          originalProof = capsule_proof (zkCapsule photo)
      in \<lparr>capsule_id = capsule_id existingCapsule,
          public_claims = newPublicClaims,
          capsule_proof = originalProof,
          metadata =
            \<lparr>proof_scheme = proof_scheme (metadata existingCapsule),
             circuit_version = circuit_version (metadata existingCapsule),
             image_hash = image_hash (metadata existingCapsule),
             verification_key = verification_key (metadata existingCapsule),
             meta_ipfsCid = meta_ipfsCid (metadata existingCapsule),
             meta_ipfsUrl = meta_ipfsUrl (metadata existingCapsule),
             walrusBlobId = None,
             storageType = None,
             created_at =
               (if created_at (metadata existingCapsule) \<noteq> 0
                then created_at (metadata existingCapsule) else now)\<rparr>\<rparr>)"

definition claim_or_private :: "bool \<Rightarrow> string option \<Rightarrow> string" where
  "claim_or_private revealed c = (if revealed then or_else c ''Private'' else ''Private'')"

definition getClaimDescription ::
  "'p SavedPhoto option \<Rightarrow> 'p SavedPhoto \<Rightarrow> revealed_claims \<Rightarrow> string \<Rightarrow> string" where
  "getClaimDescription updatedPhoto photo revealedClaims claimType =
     (let currentPhoto = (case updatedPhoto of None \<Rightarrow> photo | Some u \<Rightarrow> u);
          pc = public_claims (zkCapsule currentPhoto)
      in if claimType = ''time'' then
           claim_or_private (reveal_time revealedClaims) (pc ''time_claim'')
         else if claimType = ''location'' then
           claim_or_private (reveal_location revealedClaims) (pc ''location_claim'')
         else if claimType = ''device'' then
           claim_or_private (reveal_device revealedClaims) (pc ''device_claim'')
         else if claimType = ''authentic'' then
           claim_or_private (reveal_authentic revealedClaims) (pc ''authenticity_claim'')
         else if claimType = ''image'' then
           claim_or_private (reveal_image revealedClaims) (pc ''image_content_claim'')
         else ''Private'')"

section \<open>verify.tsx: the verifier\<close>

text \<open>
  What \<open>JSON.parse\<close> returns is a JSON value; the verifier reads it through property
  access and truthiness, whatever its shape.  \<open>JObj\<close> lists the own properties of an
  object, each key once.  \<open>undefined\<close> is \<open>None\<close> of \<open>json option\<close>.
\<close>

datatype json =
  JNull | JBool bool | JNum rat | JStr string | JArr "json list" | JObj "(string \<times> json) list"

fun truthy :: "json option \<Rightarrow> bool" where
  "truthy None = False"
| "truthy (Some JNull) = False"
| "truthy (Some (JBool b)) = b"
| "truthy (Some (JNum n)) = (n \<noteq> 0)"
| "truthy (Some (JStr s)) = (s \<noteq> [])"
| "truthy (Some (JArr xs)) = True"
| "truthy (Some (JObj kvs)) = True"

text \<open>
  \<open>v.k\<close> for the property names the verifier reads: a \<open>TypeError\<close> on \<open>undefined\<close> and
  \<open>null\<close>, the own property of an object, \<open>length\<close> of a string or an array, and
  \<open>undefined\<close> otherwise.
\<close>

fun get_prop :: "json option \<Rightarrow> string \<Rightarrow> js_error + json option" where
  "get_prop None k = Inl TypeError"
| "get_prop (Some JNull) k = Inl TypeError"
| "get_prop (Some (JObj kvs)) k = Inr (map_of kvs k)"
| "get_prop (Some (JStr s)) k =
     Inr (if k = ''length'' then Some (JNum (of_nat (length s))) else None)"
| "get_prop (Some (JArr xs)) k =
     Inr (if k = ''length'' then Some (JNum (of_nat (length xs))) else None)"
| "get_prop (Some (JBool b)) k = Inr None"
| "get_prop (Some (JNum n)) k = Inr None"

text \<open>
  The platform and the network as the verifier uses them: \<open>JSON.parse\<close> (\<open>None\<close>: a
  \<open>SyntaxError\<close>), \<open>fetch\<close> of a URL followed by \<open>response.text()\<close> (\<open>Inl\<close>: the request
  failed or the response was not ok), \<open>new Date(v)\<close> of a truthy JSON value, the
  conversion of a JSON value that is not a string to a string in a template literal, and
  the comparison \<open>v > 0\<close> for a JSON value that is not a number.
\<close>

record verify_env =
  JSON_parse :: "string \<Rightarrow> json option"
  fetch_text :: "string \<Rightarrow> js_error + string"
  Date_of :: "json \<Rightarrow> jsdate"
  String_of :: "json \<Rightarrow> string"
  gt_zero_of :: "json \<Rightarrow> bool"

fun template_str :: "verify_env \<Rightarrow> json option \<Rightarrow> string" where
  "template_str venv None = ''undefined''"
| "template_str venv (Some (JStr s)) = s"
| "template_str venv (Some v) = String_of venv v"

fun gt_zero :: "verify_env \<Rightarrow> json option \<Rightarrow> bool" where
  "gt_zero venv None = False"
| "gt_zero venv (Some (JNum n)) = (n > 0)"
| "gt_zero venv (Some v) = gt_zero_of venv v"

record TimeLockState =
  tl_isLocked :: bool
  tl_unlockTime :: "jsdate option"
  tl_lockedData :: "string option"
  tl_currentTime :: "jsdate option"
  tl_timeRemaining :: int

record WalletLockState =
  wl_isLocked :: bool
  wl_allowedAddress :: "json option"
  wl_connectedWallet :: "string option"
  wl_encryptedContent :: "string option"
  wl_decryptedContent :: "string option"
  wl_isConnecting :: bool

text \<open>\<open>loadPrivateVault\<close>: a failing read is logged and gives \<open>null\<close>.\<close>

definition loadPrivateVault :: "'s AsyncStorage \<Rightarrow> 's \<Rightarrow> string \<Rightarrow> PrivateVault option" where
  "loadPrivateVault A store capsuleId =
     (case getItem A store (''@private_vault_'' @ capsuleId) of
        Inl error \<Rightarrow> None
      | Inr vaultData \<Rightarrow> vaultData)"

text \<open>
  \<open>checkTimeLockStatus\<close>.  \<open>now\<close> is the time value \<open>fetchGlobalTime\<close> returned (always a
  valid date: a provider's answer that is not one is skipped, and the fallback is the
  device clock).  The result is the time-lock state after the call and the exception the
  call ended with, if any: the state is set before the final \<open>console.log\<close>, whose
  argument \<open>unlockTime.toISOString()\<close> throws on an invalid date.
\<close>

definition no_time_lock :: TimeLockState where
  "no_time_lock =
     \<lparr>tl_isLocked = False, tl_unlockTime = None, tl_lockedData = None, tl_currentTime = None,
      tl_timeRemaining = 0\<rparr>"

definition checkTimeLockStatus ::
  "js_env \<Rightarrow> verify_env \<Rightarrow> 's AsyncStorage \<Rightarrow> 's \<Rightarrow> int \<Rightarrow> TimeLockState \<Rightarrow> json
     \<Rightarrow> TimeLockState \<times> js_error option" where
  "checkTimeLockStatus env venv A store now st capsule =
     (case get_prop (Some capsule) ''public_claims'' of
        Inl e \<Rightarrow> (st, Some e)
      | Inr pcs \<Rightarrow>
          (case get_prop pcs ''time_lock_until'' of
             Inl e \<Rightarrow> (st, Some e)
           | Inr None \<Rightarrow> (no_time_lock, None)
           | Inr (Some until) \<Rightarrow>
               if truthy (Some until) then
                 (let unlockTime = Date_of venv until;
                      isLocked = (case unlockTime of Date u \<Rightarrow> now < u | InvalidDate \<Rightarrow> False);
                      timeRemaining =
                        (case unlockTime of
                           Date u \<Rightarrow> if isLocked then u - now else 0
                         | InvalidDate \<Rightarrow> 0)
                  in if \<not> isLocked then
                       (case get_prop (Some capsule) ''capsule_id'' of
                          Inl e \<Rightarrow> (st, Some e)
                        | Inr cid \<Rightarrow>
                            let privateVault = loadPrivateVault A store (template_str venv cid);
                                lockedData =
                                  (case privateVault of
                                     None \<Rightarrow> None
                                   | Some v \<Rightarrow>
                                       if truthy_str (original_values v ''time_lock_data'')
                                       then original_values v ''time_lock_data'' else None);
                                st' = \<lparr>tl_isLocked = isLocked, tl_unlockTime = Some unlockTime,
                                        tl_lockedData = lockedData, tl_currentTime = Some (Date now),
                                        tl_timeRemaining = timeRemaining\<rparr>
                            in (case date_toISOString env unlockTime of
                                  Inl e \<Rightarrow> (st', Some e)
                                | Inr s \<Rightarrow> (st', None)))
                     else
                       (\<lparr>tl_isLocked = isLocked, tl_unlockTime = Some unlockTime,
                          tl_lockedData = None, tl_currentTime = Some (Date now),
                          tl_timeRemaining = timeRemaining\<rparr>, None))
               else (no_time_lock, None)))"

text \<open>
  \<open>checkWalletLockStatus\<close>.  \<open>connectedWallet\<close> is the constant \<open>null\<close> there, so the
  capsule stays locked and nothing is decrypted.
\<close>

definition checkWalletLockStatus ::
  "verify_env \<Rightarrow> 's AsyncStorage \<Rightarrow> 's \<Rightarrow> WalletLockState \<Rightarrow> json
     \<Rightarrow> WalletLockState \<times> js_error option" where
  "checkWalletLockStatus venv A store st capsule =
     (case get_prop (Some capsule) ''public_claims'' of
        Inl e \<Rightarrow> (st, Some e)
      | Inr pcs \<Rightarrow>
          (case get_prop pcs ''allowed_address'' of
             Inl e \<Rightarrow> (st, Some e)
           | Inr allowed \<Rightarrow>
               if truthy allowed then
                 (case get_prop (Some capsule) ''capsule_id'' of
                    Inl e \<Rightarrow> (st, Some e)
                  | Inr cid \<Rightarrow>
                      let privateVault = loadPrivateVault A store (template_str venv cid);
                          encryptedContent =
                            (case privateVault of
                               None \<Rightarrow> None
                             | Some v \<Rightarrow>
                                 if truthy_str (original_values v ''receiver_lock_data'')
                                 then original_values v ''receiver_lock_data'' else None)
                      in (\<lparr>wl_isLocked = True, wl_allowedAddress = allowed,
                            wl_connectedWallet = None, wl_encryptedContent = encryptedContent,
                            wl_decryptedContent = None, wl_isConnecting = False\<rparr>, None))
               else
                 (\<lparr>wl_isLocked = False, wl_allowedAddress = None, wl_connectedWallet = None,
                    wl_encryptedContent = None, wl_decryptedContent = None,
                    wl_isConnecting = False\<rparr>, None)))"

text \<open>
  The state of the verify screen that \<open>verifyProof\<close> writes, with the alerts shown and
  the errors passed to \<open>console.error\<close>.
\<close>

datatype verdict = Valid | Invalid

record verify_state =
  isVerifying :: bool
  verificationResult :: "verdict option"
  parsedCapsule :: "json option"
  showFallingPhrases :: bool
  showResultsModal :: bool
  timeLockState :: TimeLockState
  walletLockState :: WalletLockState
  alerts :: "(string \<times> string) list"
  console_errors :: "js_error list"

text \<open>\<open>String.prototype.trim\<close> on the white space of the Latin-1 range.\<close>

definition is_space :: "char \<Rightarrow> bool" where
  "is_space c = (of_char c \<in> {9, 10, 11, 12, 13, 32, 160 :: nat})"

definition trim :: "string \<Rightarrow> string" where
  "trim s = rev (dropWhile is_space (rev (dropWhile is_space s)))"

definition isIpfsUrl :: "string \<Rightarrow> bool" where
  "isIpfsUrl capsuleData =
     (startsWith capsuleData ''https://gateway.pinata.cloud/ipfs/'' \<or>
      startsWith capsuleData ''https://ipfs.io/ipfs/'' \<or>
      (startsWith capsuleData ''https://'' \<and> str_includes capsuleData ''/ipfs/''))"

text \<open>
  The structural checks of \<open>verifyProof\<close>, from the parsed value to \<open>isValid\<close>: the two
  \<open>throw\<close> statements are \<open>Inl\<close>, as is the \<open>TypeError\<close> of reading a property of \<open>null\<close>.
\<close>

definition missing_fields :: js_error where
  "missing_fields = Error ''Invalid capsule structure - missing required fields''"

definition bad_metadata :: js_error where
  "bad_metadata = Error ''Invalid metadata structure''"

definition bind :: "js_error + 'a \<Rightarrow> ('a \<Rightarrow> js_error + 'b) \<Rightarrow> js_error + 'b" where
  "bind m f = (case m of Inl e \<Rightarrow> Inl e | Inr x \<Rightarrow> f x)"

definition check_structure :: "verify_env \<Rightarrow> json \<Rightarrow> js_error + bool" where
  "check_structure venv parsed =
     bind (get_prop (Some parsed) ''capsule_id'') (\<lambda>cid.
     bind (get_prop (Some parsed) ''public_claims'') (\<lambda>pcs.
     bind (get_prop (Some parsed) ''proof'') (\<lambda>prf.
     bind (get_prop (Some parsed) ''metadata'') (\<lambda>mdt.
       if \<not> truthy cid \<or> \<not> truthy pcs \<or> \<not> truthy prf \<or> \<not> truthy mdt
       then Inl missing_fields
       else
         bind (get_prop mdt ''verification_key'') (\<lambda>vk.
         bind (get_prop mdt ''proof_scheme'') (\<lambda>scheme.
           if \<not> truthy vk \<or> \<not> truthy scheme then Inl bad_metadata
           else
             bind (get_prop prf ''a'') (\<lambda>a.
             bind (get_prop prf ''b'') (\<lambda>b.
             bind (get_prop prf ''c'') (\<lambda>c.
             bind (get_prop mdt ''image_hash'') (\<lambda>ih.
             bind (get_prop cid ''length'') (\<lambda>len.
               let hasValidProof = (truthy a \<and> truthy b \<and> truthy c);
                   hasValidMetadata = (truthy vk \<and> truthy ih);
                   hasValidCapsuleId = (truthy cid \<and> gt_zero venv len)
               in Inr (hasValidProof \<and> hasValidMetadata \<and> hasValidCapsuleId))))))))))))"

definition verification_failed :: "string \<times> string" where
  "verification_failed = (''Verification Failed'', ''Invalid capsule format or corrupted data'')"

text \<open>
  \<open>verifyProof\<close>.  Every exception raised inside the \<open>try\<close> block reaches its \<open>catch\<close>,
  which logs it, sets the result to \<open>'invalid'\<close> and shows the alert; \<open>finally\<close> clears
  \<open>isVerifying\<close>.
\<close>

definition on_catch :: "verify_state \<Rightarrow> js_error \<Rightarrow> verify_state" where
  "on_catch st error =
     st\<lparr>console_errors := console_errors st @ [error],
        verificationResult := Some Invalid,
        alerts := alerts st @ [verification_failed],
        isVerifying := False\<rparr>"

definition verifyProof ::
  "js_env \<Rightarrow> verify_env \<Rightarrow> 's AsyncStorage \<Rightarrow> 's \<Rightarrow> int \<Rightarrow> verify_state \<Rightarrow> string \<Rightarrow> verify_state" where
  "verifyProof env venv A store now st0 proofData =
     (if trim proofData = [] then
        st0\<lparr>alerts := alerts st0 @ [(''Error'', ''Please enter capsule data to verify'')]\<rparr>
      else
        let st1 = st0\<lparr>isVerifying := True, verificationResult := None, parsedCapsule := None,
                       showFallingPhrases := True\<rparr>;
            fetched = (if isIpfsUrl (trim proofData) then fetch_text venv (trim proofData)
                       else Inr (trim proofData))
        in case fetched of
             Inl fetchError \<Rightarrow>
               st1\<lparr>console_errors := console_errors st1 @ [fetchError],
                    alerts := alerts st1 @
                      [(''IPFS Error'',
                        ''Failed to fetch capsule data from IPFS URL. Please check the URL and try again.'')],
                    isVerifying := False\<rparr>
           | Inr capsuleData \<Rightarrow>
               (case JSON_parse venv capsuleData of
                  None \<Rightarrow> on_catch st1 SyntaxError
                | Some parsed \<Rightarrow>
                    (case check_structure venv parsed of
                       Inl e \<Rightarrow> on_catch st1 e
                     | Inr isValid \<Rightarrow>
                         if isValid then
                           (let st2 = st1\<lparr>parsedCapsule := Some parsed,
                                           verificationResult := Some Valid\<rparr>;
                                (tls, thrown) =
                                  checkTimeLockStatus env venv A store now (timeLockState st2) parsed;
                                st3 = st2\<lparr>timeLockState := tls\<rparr>
                            in case thrown of
                                 Some e \<Rightarrow> on_catch st3 e
                               | None \<Rightarrow>
                                   (let (wls, thrown') =
                                          checkWalletLockStatus venv A store (walletLockState st3) parsed;
                                        st4 = st3\<lparr>walletLockState := wls\<rparr>
                                    in case thrown' of
                                         Some e \<Rightarrow> on_catch st4 e
                                       | None \<Rightarrow> st4\<lparr>showResultsModal := True, isVerifying := False\<rparr>))
                         else
                           st1\<lparr>verificationResult := Some Invalid,
                                alerts := alerts st1 @ [verification_failed],
                                isVerifying := False\<rparr>)))"

text \<open>
  \<open>renderTimeLockSection\<close>, the unlocked branch: the text shown as the locked data is
  \<open>timeLockState.lockedData || 'No data available'\<close>.
\<close>

definition shown_locked_data :: "TimeLockState \<Rightarrow> string" where
  "shown_locked_data tls = or_else (tl_lockedData tls) ''No data available''"

text \<open>
  The keys \<open>generatePublicClaims\<close> writes, by the block of the source that writes them,
  and the keys \<open>generateZKCapsule\<close> adds from its \<open>claims\<close> and circuit-result arguments.
\<close>

definition date_keys :: "string set" where
  "date_keys = {''date_exact'', ''date_day'', ''date_month'', ''date_year''}"

definition location_keys :: "string set" where
  "location_keys = {''location_exact'', ''location_city'', ''location_country'', ''location_continent''}"

definition device_keys :: "string set" where
  "device_keys = {''device_type'', ''device_platform'', ''device_info''}"

definition identity_keys :: "string set" where
  "identity_keys = {''identity_verified''}"

definition image_keys :: "string set" where
  "image_keys = {''image_description'', ''image_cid''}"

definition time_lock_keys :: "string set" where
  "time_lock_keys = {''time_lock_until'', ''time_lock_type''}"

definition receiver_lock_keys :: "string set" where
  "receiver_lock_keys = {''allowed_address''}"

definition derived_keys :: "string set" where
  "derived_keys = {''time_within_month'', ''location_in_region'', ''device_trusted'', ''photo_authentic'',
     ''image_content_revealed'', ''time_claim'', ''location_claim'', ''device_claim'',
     ''authenticity_claim'', ''image_content_claim''}"

section \<open>Sample inputs\<close>

text \<open>
  Concrete inputs for evaluating the functions: a photo taken in Paris, privacy settings
  that enable only the location proof at level \<open>country\<close>, random draws that are all 0.5 and a
  clock that advances by one millisecond per reading.
\<close>

definition sample_metadata :: PhotoMetadata where
  "sample_metadata =
     \<lparr>timestamp = 1700000000000,
      location = Some \<lparr>latitude = Some (4886 / 100), longitude = Some (235 / 100),
                        city = Some ''Paris'', country = Some ''France'', continent = None\<rparr>,
      deviceInfo = ''iOS Camera'',
      photoHash = ''abc123'',
      ipfsCid = None\<rparr>"

definition sample_settings :: PrivacySettings where
  "sample_settings =
     \<lparr>timeProof = \<lparr>enabled = False, level = ''month''\<rparr>,
      locationProof = \<lparr>enabled = True, level = ''country''\<rparr>,
      deviceProof = \<lparr>enabled = False, level = ''devicetype''\<rparr>,
      identityProof = \<lparr>enabled = False\<rparr>,
      imageReveal = \<lparr>enabled = False, level = ''none''\<rparr>,
      timeLock = \<lparr>enabled = False, unlockTime = None, lockedData = [], lockType = ''date''\<rparr>,
      receiverLock = \<lparr>enabled = False, walletAddress = [], encryptedContent = []\<rparr>,
      storageOptions = \<lparr>storage_type = Some ''ipfs'', storage_walrusBlobId = None\<rparr>\<rparr>"

definition sample_rng :: rng where
  "sample_rng = (\<lambda>_. (1, 1))"

definition sample_clock :: "nat \<Rightarrow> int" where
  "sample_clock k = 1700000001000 + int k"

definition no_results :: circuit_results where
  "no_results =
     \<lparr>timeWithinMonth = None, locationInRegion = None, deviceTrusted = None,
      photoAuthentic = None, imageContentRevealed = None\<rparr>"

text \<open>
  A saved photo whose capsule hides the time (and carries no \<open>time_claim\<close> text), the
  flags of a revision that reveals the time, and the default levels.
\<close>

definition sample_capsule :: "string ZKCapsule" where
  "sample_capsule =
     \<lparr>capsule_id = ''5a304be5'',
      public_claims =
        [''location_country'' \<mapsto> ''France'', ''time_within_month'' \<mapsto> ''false'',
         ''location_in_region'' \<mapsto> ''true'', ''location_claim'' \<mapsto> ''France''],
      capsule_proof = ''proof'',
      metadata =
        \<lparr>proof_scheme = ''circom 2'', circuit_version = ''multiplier2_v1'',
         image_hash = ''abc123'', verification_key = ''4e68c9a6'', meta_ipfsCid = None,
         meta_ipfsUrl = None, walrusBlobId = None, storageType = Some ''ipfs'',
         created_at = 1700000001000\<rparr>\<rparr>"

definition sample_photo :: "string SavedPhoto" where
  "sample_photo =
     \<lparr>photo_id = ''1700000001004'', photo_timestamp = 1700000000000, zkCapsule = sample_capsule\<rparr>"

definition reveal_time_too :: revealed_claims where
  "reveal_time_too =
     \<lparr>reveal_time = True, reveal_location = True, reveal_device = False,
      reveal_authentic = False, reveal_image = False\<rparr>"

definition sample_levels :: selected_levels where
  "sample_levels = \<lparr>level_time = ''month'', level_location = ''country''\<rparr>"

text \<open>
  Inputs of the verifier: a structurally complete capsule, the same capsule with one of
  the four required fields removed, and the complete capsule with a \<open>time_lock_until\<close>
  claim that is a date, or not one, each as the JSON text and as the value \<open>JSON.parse\<close>
  gives for it.  The sample platform parses exactly these texts, reads the one date
  string, and has no network.
\<close>

definition complete_fields :: "(string \<times> json) list" where
  "complete_fields =
     [(''capsule_id'', JStr ''5a304be5''),
      (''public_claims'', JObj [(''location_country'', JStr ''France'')]),
      (''proof'', JObj [(''a'', JNum 1), (''b'', JNum 1), (''c'', JNum 1)]),
      (''metadata'',
         JObj [(''verification_key'', JStr ''4e68c9a6''), (''proof_scheme'', JStr ''circom 2''),
               (''image_hash'', JStr ''abc123'')])]"

definition without_field :: "string \<Rightarrow> (string \<times> json) list \<Rightarrow> (string \<times> json) list" where
  "without_field k kvs = filter (\<lambda>kv. fst kv \<noteq> k) kvs"

definition without_verification_key :: "(string \<times> json) list" where
  "without_verification_key =
     without_field ''metadata'' complete_fields @
       [(''metadata'', JObj [(''proof_scheme'', JStr ''circom 2''), (''image_hash'', JStr ''abc123'')])]"

definition with_time_lock :: "string \<Rightarrow> (string \<times> json) list" where
  "with_time_lock until =
     without_field ''public_claims'' complete_fields @
       [(''public_claims'', JObj [(''time_lock_until'', JStr until)])]"

definition text_complete :: string where
  \<open>text_complete = ''{"capsule_id":"5a304be5","public_claims":{"location_country":"France"},"proof":{"a":1,"b":1,"c":1},"metadata":{"verification_key":"4e68c9a6","proof_scheme":"circom 2","image_hash":"abc123"}}''\<close>

definition text_no_capsule_id :: string where
  \<open>text_no_capsule_id = ''{"public_claims":{"location_country":"France"},"proof":{"a":1,"b":1,"c":1},"metadata":{"verification_key":"4e68c9a6","proof_scheme":"circom 2","image_hash":"abc123"}}''\<close>

definition text_no_public_claims :: string where
  \<open>text_no_public_claims = ''{"capsule_id":"5a304be5","proof":{"a":1,"b":1,"c":1},"metadata":{"verification_key":"4e68c9a6","proof_scheme":"circom 2","image_hash":"abc123"}}''\<close>

definition text_no_proof :: string where
  \<open>text_no_proof = ''{"capsule_id":"5a304be5","public_claims":{"location_country":"France"},"metadata":{"verification_key":"4e68c9a6","proof_scheme":"circom 2","image_hash":"abc123"}}''\<close>

definition text_no_verification_key :: string where
  \<open>text_no_verification_key = ''{"capsule_id":"5a304be5","public_claims":{"location_country":"France"},"proof":{"a":1,"b":1,"c":1},"metadata":{"proof_scheme":"circom 2","image_hash":"abc123"}}''\<close>

definition text_locked_2030 :: string where
  \<open>text_locked_2030 = ''{"capsule_id":"5a304be5","proof":{"a":1,"b":1,"c":1},"metadata":{"verification_key":"4e68c9a6","proof_scheme":"circom 2","image_hash":"abc123"},"public_claims":{"time_lock_until":"2030-01-01T00:00:00.000Z"}}''\<close>

definition text_locked_garbage :: string where
  \<open>text_locked_garbage = ''{"capsule_id":"5a304be5","proof":{"a":1,"b":1,"c":1},"metadata":{"verification_key":"4e68c9a6","proof_scheme":"circom 2","image_hash":"abc123"},"public_claims":{"time_lock_until":"garbage"}}''\<close>

definition sample_documents :: "(string \<times> json) list" where
  "sample_documents =
     [(text_complete, JObj complete_fields),
      (text_no_capsule_id, JObj (without_field ''capsule_id'' complete_fields)),
      (text_no_public_claims, JObj (without_field ''public_claims'' complete_fields)),
      (text_no_proof, JObj (without_field ''proof'' complete_fields)),
      (text_no_verification_key, JObj without_verification_key),
      (text_locked_2030, JObj (with_time_lock ''2030-01-01T00:00:00.000Z'')),
      (text_locked_garbage, JObj (with_time_lock ''garbage''))]"

definition sample_venv :: verify_env where
  "sample_venv =
     \<lparr>JSON_parse = map_of sample_documents,
      fetch_text = (\<lambda>url. Inl (Error ''Network request failed'')),
      Date_of = (\<lambda>v. if v = JStr ''2030-01-01T00:00:00.000Z'' then Date 1893456000000
                       else InvalidDate),
      String_of = (\<lambda>v. ''[object Object]''),
      gt_zero_of = (\<lambda>v. False)\<rparr>"

definition initial_state :: verify_state where
  "initial_state =
     \<lparr>isVerifying = False, verificationResult = None, parsedCapsule = None,
      showFallingPhrases = True, showResultsModal = False,
      timeLockState = no_time_lock,
      walletLockState =
        \<lparr>wl_isLocked = False, wl_allowedAddress = None, wl_connectedWallet = None,
         wl_encryptedContent = None, wl_decryptedContent = None, wl_isConnecting = False\<rparr>,
      alerts = [], console_errors = []\<rparr>"

definition secret_vault :: PrivateVault where
  "secret_vault =
     \<lparr>vault_capsule_id = ''5a304be5'', commitments = Map.empty, salts = Map.empty,
      original_values = [''time_lock_data'' \<mapsto> ''secret-X'']\<rparr>"

definition secret_store :: "string \<rightharpoonup> PrivateVault" where
  "secret_store = [''@private_vault_5a304be5'' \<mapsto> secret_vault]"

section \<open>Properties of the hash and the commitment\<close>

lemma hash_step_31: "hash_step h c = 31 * h + of_nat (of_char c)"
  by (simp add: hash_step_def push_bit_eq_mult)

lemma hash_loop_append: "hash_loop h (xs @ ys) = hash_loop (hash_loop h xs) ys"
  by (induction xs arbitrary: h) simp_all

lemma poseidonCommitment_concat: "poseidonCommitment v salt = generateSimpleHash (v @ salt)"
  by (simp add: poseidonCommitment_def)

text \<open>
  Claim C8.  The commitment builder is a pure function of its two string arguments:
  two invocations with identical value and identical salt return the identical string.
  In the source \<open>poseidonCommitment\<close> and \<open>generateSimpleHash\<close> read nothing but their
  parameters and a local accumulator, which is what the embedding records.
\<close>

theorem poseidonCommitment_deterministic:
  "v = v' \<Longrightarrow> salt = salt' \<Longrightarrow> poseidonCommitment v salt = poseidonCommitment v' salt'"
  by simp

theorem poseidonCommitment_deterministic_witness:
  "poseidonCommitment ''Paris'' ''123456'' = poseidonCommitment (''Par'' @ ''is'') (''123'' @ ''456'')"
proof (rule poseidonCommitment_deterministic)
  show "''Paris'' = ''Par'' @ ''is''" by simp
  show "''123456'' = ''123'' @ ''456''" by simp
qed

section \<open>Properties of the salt generator\<close>

lemma toString10_small: "n < 10 \<Longrightarrow> toString10 n = [decdigit n]"
  by (subst toString10.simps) simp

lemma isDigit_decdigit: "isDigit (decdigit n)"
proof -
  have "nat (n mod 10) < length ''0123456789''" by simp
  then have "''0123456789'' ! nat (n mod 10) \<in> set ''0123456789''" by (rule nth_mem)
  then show ?thesis unfolding isDigit_def decdigit_def .
qed

lemma round_half_even_bound: "2 * (round_half_even p s * 2 ^ s) \<le> 2 * p + 2 ^ s"
proof -
  define q where "q = p div 2 ^ s"
  define r where "r = p mod 2 ^ s"
  have p: "p = q * 2 ^ s + r" unfolding q_def r_def by (rule div_mult_mod_eq [symmetric])
  show ?thesis
  proof (cases "2 * r > 2 ^ s \<or> (2 * r = 2 ^ s \<and> odd q)")
    case True
    then have "round_half_even p s = q + 1"
      by (simp add: round_half_even_def Let_def q_def r_def)
    moreover from True have "2 ^ s \<le> 2 * r" by auto
    ultimately show ?thesis unfolding p by (simp add: algebra_simps)
  next
    case False
    have "0 \<le> r" by (simp add: r_def)
    moreover have "round_half_even p s = q" using False
      by (simp add: round_half_even_def Let_def q_def r_def)
    ultimately show ?thesis unfolding p by (simp add: algebra_simps)
  qed
qed

lemma round_half_even_nonneg: "0 \<le> p \<Longrightarrow> 0 \<le> round_half_even p s"
  by (simp add: round_half_even_def Let_def pos_imp_zdiv_nonneg_iff)

lemma double_times_range:
  assumes d: "is_unit_double d" and c: "0 < c"
    and bits: "fst d * c < 2 ^ (53 + j)" and j: "(2::int) ^ j < 2 * c"
  shows "0 \<le> double_times d c \<and> double_times d c < of_int c"
proof -
  define m where "m = fst d"
  define k where "k = snd d"
  define p where "p = m * c"
  define s where "s = nat (bitlen p - 53)"
  define n where "n = round_half_even p s * 2 ^ s"
  have dt: "double_times d c = of_int n / 2 ^ k"
    by (simp add: double_times_def Let_def n_def s_def p_def m_def k_def)
  have mk: "m < 2 ^ k" and m0: "0 \<le> m" using d by (simp_all add: is_unit_double_def m_def k_def)
  have p0: "0 \<le> p" using m0 c by (simp add: p_def)
  have "bitlen p \<le> 53 + int j" using bits
    by (simp add: bitlen_le_iff_power p_def m_def nat_add_distrib)
  then have "s \<le> j" by (simp add: s_def)
  then have "(2::int) ^ s \<le> 2 ^ j" by simp
  then have s2: "(2::int) ^ s < 2 * c" using j by (rule le_less_trans)
  have "m + 1 \<le> 2 ^ k" using mk by simp
  then have "(m + 1) * c \<le> 2 ^ k * c" using c by (intro mult_right_mono) simp_all
  then have pc: "p + c \<le> c * 2 ^ k" by (simp add: p_def algebra_simps)
  have "2 * n \<le> 2 * p + 2 ^ s" unfolding n_def by (rule round_half_even_bound)
  also have "\<dots> < 2 * p + 2 * c" using s2 by simp
  also have "\<dots> \<le> 2 * (c * 2 ^ k)" using pc by simp
  finally have "n < c * 2 ^ k" by simp
  then have "(of_int n :: rat) < of_int (c * 2 ^ k)" by (simp only: of_int_less_iff)
  then have "(of_int n :: rat) < of_int c * 2 ^ k" by simp
  then have "(of_int n :: rat) / 2 ^ k < of_int c" by (simp add: divide_less_eq)
  moreover have "0 \<le> n" unfolding n_def using round_half_even_nonneg [OF p0] by simp
  then have "0 \<le> (of_int n :: rat) / 2 ^ k" by simp
  ultimately show ?thesis unfolding dt by simp
qed

lemma floor_draw:
  assumes "is_unit_double d"
  shows "0 \<le> \<lfloor>double_times d 10\<rfloor> \<and> \<lfloor>double_times d 10\<rfloor> < 10"
    and "0 \<le> \<lfloor>double_times d 4\<rfloor> \<and> \<lfloor>double_times d 4\<rfloor> < 4"
proof -
  have m: "fst d < 2 ^ 53" "0 \<le> fst d" using assms by (simp_all add: is_unit_double_def)
  have "fst d * 10 < 2 ^ 53 * 16" using m by simp
  then have "fst d * 10 < 2 ^ (53 + 4)" by simp
  from double_times_range [OF assms _ this]
  have "0 \<le> double_times d 10 \<and> double_times d 10 < 10" by simp
  then show "0 \<le> \<lfloor>double_times d 10\<rfloor> \<and> \<lfloor>double_times d 10\<rfloor> < 10"
    by (simp add: floor_less_iff)
  have "fst d * 4 < 2 ^ 53 * 4" using m by simp
  then have "fst d * 4 < 2 ^ (53 + 2)" by simp
  from double_times_range [OF assms _ this]
  have "0 \<le> double_times d 4 \<and> double_times d 4 < 4" by simp
  then show "0 \<le> \<lfloor>double_times d 4\<rfloor> \<and> \<lfloor>double_times d 4\<rfloor> < 4"
    by (simp add: floor_less_iff)
qed

lemma salt_digit_at_seven_tenths:
  "is_unit_double (6305039478318694, 53) \<and> \<lfloor>double_times (6305039478318694, 53) 10\<rfloor> = 7"
  by code_simp

lemma draw_digit:
  assumes "is_unit_double d"
  shows "int_toString \<lfloor>double_times d 10\<rfloor> = [decdigit \<lfloor>double_times d 10\<rfloor>]"
proof -
  have "0 \<le> \<lfloor>double_times d 10\<rfloor> \<and> \<lfloor>double_times d 10\<rfloor> < 10"
    by (rule floor_draw(1) [OF assms])
  then have "\<lfloor>double_times d 10\<rfloor> < 10" and "\<not> \<lfloor>double_times d 10\<rfloor> < 0" by linarith+
  then show ?thesis by (simp add: int_toString_def toString10_small)
qed

lemma salt_loop_digits:
  assumes "\<forall>i. is_unit_double (rng i)"
  shows "length (salt_loop rng p k) = k \<and> (\<forall>c \<in> set (salt_loop rng p k). isDigit c)"
  using assms by (induction k arbitrary: p) (simp_all add: draw_digit isDigit_decdigit)

lemma generateSalt_digits:
  assumes "\<forall>i. is_unit_double (rng i)"
  shows "length (fst (generateSalt rng p)) \<in> {6, 7, 8, 9} \<and>
         (\<forall>c \<in> set (fst (generateSalt rng p)). isDigit c)"
proof -
  define k where "k = \<lfloor>double_times (rng p) 4\<rfloor>"
  have "is_unit_double (rng p)" using assms by simp
  then have "0 \<le> k \<and> k < 4" unfolding k_def by (rule floor_draw(2))
  then have "k = 0 \<or> k = 1 \<or> k = 2 \<or> k = 3" by linarith
  then have "nat (6 + k) \<in> {6, 7, 8, 9}" by auto
  then show ?thesis using salt_loop_digits [OF assms] by (simp add: generateSalt_def Let_def k_def)
qed

lemma salts_for_digits:
  assumes "\<forall>i. is_unit_double (rng i)" "fst (salts_for rng p ks) k = Some s"
  shows "length s \<in> {6, 7, 8, 9} \<and> (\<forall>c \<in> set s. isDigit c)"
  using assms
proof (induction ks arbitrary: p)
  case Nil
  then show ?case by simp
next
  case (Cons a ks)
  obtain s1 p1 where g: "generateSalt rng p = (s1, p1)" by (cases "generateSalt rng p")
  obtain m p2 where r: "salts_for rng p1 ks = (m, p2)" by (cases "salts_for rng p1 ks")
  show ?case
  proof (cases "k = a")
    case True
    with Cons.prems g r have "s = fst (generateSalt rng p)" by simp
    then show ?thesis using generateSalt_digits [OF Cons.prems(1)] by simp
  next
    case False
    with Cons.prems g r have "fst (salts_for rng p1 ks) k = Some s" by simp
    then show ?thesis using Cons.IH Cons.prems(1) by blast
  qed
qed

lemma dom_salts_for: "dom (fst (salts_for rng p ks)) = set ks"
  by (induction ks arbitrary: p) (auto simp: split_beta Let_def)

text \<open>
  Claim C9.  Every salt the capsule pipeline generates is a string of decimal digits
  whose length is 6, 7, 8 or 9: with every \<open>Math.random()\<close> draw a double in \<open>[0, 1)\<close>
  and the products rounded as IEEE 754 doubles, \<open>generateAllSalts\<close> returns a salt for
  each of its fifteen keys, and each of them is such a string.
\<close>

theorem generateAllSalts_digits:
  assumes "\<forall>i. is_unit_double (rng i)"
  shows "dom (fst (generateAllSalts rng p)) = set salt_keys \<and>
    (\<forall>k s. fst (generateAllSalts rng p) k = Some s \<longrightarrow>
       length s \<in> {6, 7, 8, 9} \<and> (\<forall>c \<in> set s. isDigit c))"
  using salts_for_digits [OF assms] by (simp add: generateAllSalts_def dom_salts_for)

text \<open>The draws are all the double nearest to 0.7, whose product with 10 rounds up to 7.\<close>

theorem generateAllSalts_digits_witness:
  "(\<forall>i::nat. is_unit_double (6305039478318694, 53)) \<and>
   fst (generateAllSalts (\<lambda>_. (6305039478318694, 53)) 0) ''date_exact'' = Some ''77777777'' \<and>
   length ''77777777'' \<in> {6::nat, 7, 8, 9} \<and> list_all isDigit ''77777777''"
proof -
  have h: "\<forall>i::nat. is_unit_double (6305039478318694, 53)" by (simp add: is_unit_double_def)
  have e: "fst (generateAllSalts (\<lambda>_. (6305039478318694, 53)) 0) ''date_exact'' = Some ''77777777''"
    by code_simp
  from generateAllSalts_digits [of "\<lambda>_. (6305039478318694, 53)" 0, OF h] e
  have "length ''77777777'' \<in> {6::nat, 7, 8, 9} \<and> (\<forall>c \<in> set ''77777777''. isDigit c)" by blast
  then have "length ''77777777'' \<in> {6::nat, 7, 8, 9} \<and> list_all isDigit ''77777777''"
    unfolding list_all_iff .
  with h e show ?thesis by blast
qed

section \<open>Properties of the location claim\<close>

text \<open>
  Claim C10.  Location claim derivation does not raise on missing data: with no
  location it returns \<open>'Location not available'\<close> at every level; with a location
  whose city, country or continent is missing (or empty) it returns the fallback phrase
  of the requested level; and at every level other than \<open>exact\<close> it returns a string.
\<close>

theorem generateLocationClaim_fallback:
  "generateLocationClaim env None lvl = Inr ''Location not available'' \<and>
   (\<not> truthy_str (city l) \<longrightarrow>
      generateLocationClaim env (Some l) ''city'' = Inr ''In local city'') \<and>
   (\<not> truthy_str (country l) \<longrightarrow>
      generateLocationClaim env (Some l) ''country'' = Inr ''In authorized country'') \<and>
   (\<not> truthy_str (continent l) \<longrightarrow>
      generateLocationClaim env (Some l) ''continent'' = Inr ''In authorized continent'') \<and>
   (lvl \<notin> {''exact'', ''city'', ''country'', ''continent''} \<and> \<not> truthy_str (country l) \<longrightarrow>
      generateLocationClaim env (Some l) lvl = Inr ''In authorized region'') \<and>
   (lvl \<noteq> ''exact'' \<longrightarrow> (\<exists>s. generateLocationClaim env (Some l) lvl = Inr s))"
proof -
  have or_else_falsy: "\<And>x d. \<not> truthy_str x \<Longrightarrow> or_else x d = d"
    by (case_tac x) simp_all
  show ?thesis
    by (auto simp: generateLocationClaim_def or_else_falsy split: option.splits)
qed

theorem generateLocationClaim_fallback_witness:
  "\<not> truthy_str (city \<lparr>latitude = None, longitude = None, city = None, country = Some [],
      continent = None\<rparr>) \<and>
   generateLocationClaim sample_env (Some \<lparr>latitude = None, longitude = None, city = None,
      country = Some [], continent = None\<rparr>) ''city'' = Inr ''In local city''"
  using generateLocationClaim_fallback
    [of sample_env "''city''" "\<lparr>latitude = None, longitude = None, city = None, country = Some [],
      continent = None\<rparr>"]
  by simp

section \<open>Properties of capsule generation\<close>

lemma generateOriginalValues_ok:
  "newDate (timestamp md) = Date t \<Longrightarrow> \<exists>ov. generateOriginalValues env md ps = Inr ov"
  by (simp add: generateOriginalValues_def Let_def)

lemma generateCommitments_ok:
  "newDate (timestamp md) = Date t \<Longrightarrow> \<exists>cm. generateCommitments env md sls = Inr cm"
  by (simp add: generateCommitments_def Let_def)

lemma pc_time_ok: "d = Date t \<Longrightarrow> \<exists>pc'. pc_time env d tp pc = Inr pc'"
  by (simp add: pc_time_def)

lemma pc_timeLock_ok:
  "enabled tlk \<longrightarrow> unlockTime tlk \<noteq> Some InvalidDate \<Longrightarrow> \<exists>pc'. pc_timeLock env tlk pc = Inr pc'"
  by (cases "unlockTime tlk"; cases "the (unlockTime tlk)") (auto simp: pc_timeLock_def)

lemma generatePublicClaims_ok:
  assumes "newDate (timestamp md) = Date t"
    and "enabled (timeLock ps) \<longrightarrow> unlockTime (timeLock ps) \<noteq> Some InvalidDate"
  shows "\<exists>pc. generatePublicClaims env md ps = Inr pc"
proof -
  obtain pc1 where 1: "pc_time env (newDate (timestamp md)) (timeProof ps) Map.empty = Inr pc1"
    using pc_time_ok [OF assms(1)] by blast
  obtain pc6 where 6: "pc_timeLock env (timeLock ps)
      (pc_image (ipfsCid md) (imageReveal ps)
        (pc_identity (identityProof ps)
          (pc_device env (deviceInfo md) (deviceProof ps)
            (pc_location env (location md) (locationProof ps) pc1)))) = Inr pc6"
    using pc_timeLock_ok [OF assms(2)] by blast
  show ?thesis by (simp add: generatePublicClaims_def Let_def 1 6)
qed


lemma generateZKCapsule_result:
  assumes ov: "generateOriginalValues env md ps = Inr ov"
    and cm: "generateCommitments env md (fst (generateAllSalts rng p)) = Inr cm"
    and pc: "generatePublicClaims env md ps = Inr pc"
  shows "\<exists>c cms. generateZKCapsule env A rng p now1 now2 store md ps prf vk ipfs url ct results cl =
           (Inr c, storePrivateVault A store (generateSimpleHash (photoHash md @ int_toString now1)) cms
                     (fst (generateAllSalts rng p)) ov)
         \<and> capsule_id c = generateSimpleHash (photoHash md @ int_toString now1)
         \<and> capsule_proof c = prf
         \<and> public_claims c = add_readable_claims cl (add_circuit_results results pc)"
proof -
  define cid where "cid = generateSimpleHash (photoHash md @ int_toString now1)"
  define sls where "sls = fst (generateAllSalts rng p)"
  define cm1 where "cm1 = (if enabled (timeLock ps) \<and> lockedData (timeLock ps) \<noteq> []
      then cm(''time_lock_data'' \<mapsto> poseidonCommitment (lockedData (timeLock ps)) (salt_of sls ''time_lock''))
      else cm)"
  define cm2 where "cm2 = (if enabled (receiverLock ps) \<and> encryptedContent (receiverLock ps) \<noteq> []
      then cm1(''receiver_lock_data'' \<mapsto>
             poseidonCommitment (encryptedContent (receiverLock ps)) (salt_of sls ''receiver_lock''))
      else cm1)"
  define c where "c =
     \<lparr>capsule_id = cid,
      public_claims = add_readable_claims cl (add_circuit_results results pc),
      capsule_proof = prf,
      metadata =
        \<lparr>proof_scheme = ''circom 2'', circuit_version = ''multiplier2_v1'',
         image_hash = photoHash md, verification_key = vk, meta_ipfsCid = ipfs,
         meta_ipfsUrl = url, walrusBlobId = storage_walrusBlobId (storageOptions ps),
         storageType = storage_type (storageOptions ps),
         created_at = (case ct of None \<Rightarrow> now2 | Some t \<Rightarrow> if t \<noteq> 0 then t else now2)\<rparr>\<rparr>"
  have "generateZKCapsule env A rng p now1 now2 store md ps prf vk ipfs url ct results cl =
          (Inr c, storePrivateVault A store cid cm2 sls ov)"
    unfolding generateZKCapsule_def Let_def ov cm [unfolded sls_def [symmetric]] pc sum.case split_beta
      cid_def [symmetric] sls_def [symmetric] cm1_def [symmetric] cm2_def [symmetric] c_def [symmetric]
    by simp
  moreover have "capsule_id c = cid" "capsule_proof c = prf"
    "public_claims c = add_readable_claims cl (add_circuit_results results pc)"
    by (simp_all add: c_def)
  ultimately have "generateZKCapsule env A rng p now1 now2 store md ps prf vk ipfs url ct results cl =
           (Inr c, storePrivateVault A store (generateSimpleHash (photoHash md @ int_toString now1)) cm2
              (fst (generateAllSalts rng p)) ov)
         \<and> capsule_id c = generateSimpleHash (photoHash md @ int_toString now1)
         \<and> capsule_proof c = prf
         \<and> public_claims c = add_readable_claims cl (add_circuit_results results pc)"
    by (simp add: cid_def sls_def)
  then show ?thesis by (intro exI)
qed

lemma storePrivateVault_cases:
  "storePrivateVault A store cid cms sls ov =
     (case setItem A store (''@private_vault_'' @ cid)
        \<lparr>vault_capsule_id = cid, commitments = cms, salts = sls, original_values = ov\<rparr> of
        Inl e \<Rightarrow> (store, [e])
      | Inr store' \<Rightarrow> (store', []))"
  by (simp add: storePrivateVault_def split: sum.splits)

text \<open>
  Claim C1 (as the code has it).  Capsule generation does not depend on the vault write:
  when the photo's timestamp is a valid date and an enabled time lock has no invalid
  unlock date, \<open>generateZKCapsule\<close> returns a capsule, whose id is the hash of the photo
  hash and the clock reading, whatever \<open>AsyncStorage.setItem\<close> does.  The vault handed to
  \<open>setItem\<close> carries the capsule's id and is written under \<open>@private_vault_<id>\<close>; when
  the write is rejected the store is left as it was and the error is only logged.
\<close>

theorem generateZKCapsule_returns_without_vault:
  assumes "newDate (timestamp md) \<noteq> InvalidDate"
    and "enabled (timeLock ps) \<longrightarrow> unlockTime (timeLock ps) \<noteq> Some InvalidDate"
  shows "\<exists>c v. fst (generateZKCapsule env A rng p now1 now2 store md ps prf vk ipfs url ct results cl) = Inr c
           \<and> capsule_id c = generateSimpleHash (photoHash md @ int_toString now1)
           \<and> vault_capsule_id v = capsule_id c
           \<and> snd (generateZKCapsule env A rng p now1 now2 store md ps prf vk ipfs url ct results cl) =
               (case setItem A store (''@private_vault_'' @ capsule_id c) v of
                  Inl e \<Rightarrow> (store, [e])
                | Inr store' \<Rightarrow> (store', []))"
proof -
  define cid where "cid = generateSimpleHash (photoHash md @ int_toString now1)"
  define R where "R = generateZKCapsule env A rng p now1 now2 store md ps prf vk ipfs url ct results cl"
  obtain t where t: "newDate (timestamp md) = Date t"
    using assms(1) by (cases "newDate (timestamp md)") auto
  obtain ov where ov: "generateOriginalValues env md ps = Inr ov"
    using generateOriginalValues_ok [OF t] by blast
  obtain cm where cm: "generateCommitments env md (fst (generateAllSalts rng p)) = Inr cm"
    using generateCommitments_ok [OF t] by blast
  obtain pc where pc: "generatePublicClaims env md ps = Inr pc"
    using generatePublicClaims_ok [OF t assms(2)] by blast
  have "\<exists>c cms. R = (Inr c, storePrivateVault A store cid cms (fst (generateAllSalts rng p)) ov)
      \<and> capsule_id c = cid \<and> capsule_proof c = prf
      \<and> public_claims c = add_readable_claims cl (add_circuit_results results pc)"
    unfolding R_def cid_def by (rule generateZKCapsule_result [OF ov cm pc])
  then obtain c cms where r: "R = (Inr c, storePrivateVault A store cid cms (fst (generateAllSalts rng p)) ov)"
    and c: "capsule_id c = cid"
    by blast
  define v where "v = \<lparr>vault_capsule_id = cid, commitments = cms,
    salts = fst (generateAllSalts rng p), original_values = ov\<rparr>"
  have 1: "fst R = Inr c" by (simp add: r)
  have 2: "vault_capsule_id v = capsule_id c" by (simp add: v_def c)
  have 3: "snd R = (case setItem A store (''@private_vault_'' @ capsule_id c) v of
                  Inl e \<Rightarrow> (store, [e])
                | Inr store' \<Rightarrow> (store', []))"
    unfolding r v_def snd_conv c by (rule storePrivateVault_cases)
  have "fst R = Inr c \<and> capsule_id c = cid \<and> vault_capsule_id v = capsule_id c \<and>
     snd R = (case setItem A store (''@private_vault_'' @ capsule_id c) v of
                  Inl e \<Rightarrow> (store, [e])
                | Inr store' \<Rightarrow> (store', []))"
    using 1 2 3 c by simp
  then show ?thesis unfolding R_def cid_def by (intro exI)
qed


theorem generateZKCapsule_returns_without_vault_witness:
  "\<exists>c v. fst (generateZKCapsule sample_env full_storage sample_rng 0 1700000001002 1700000001003
             Map.empty sample_metadata sample_settings ''proof'' ''vk'' None None None no_results None)
           = Inr c
         \<and> capsule_id c = generateSimpleHash (photoHash sample_metadata @ int_toString 1700000001002)
         \<and> vault_capsule_id v = capsule_id c
         \<and> snd (generateZKCapsule sample_env full_storage sample_rng 0 1700000001002 1700000001003
             Map.empty sample_metadata sample_settings ''proof'' ''vk'' None None None no_results None)
           = (case setItem full_storage Map.empty (''@private_vault_'' @ capsule_id c) v of
                Inl e \<Rightarrow> (Map.empty, [e])
              | Inr store' \<Rightarrow> (store', []))"
proof (rule generateZKCapsule_returns_without_vault)
  show "newDate (timestamp sample_metadata) \<noteq> InvalidDate"
    by code_simp
  show "enabled (timeLock sample_settings) \<longrightarrow> unlockTime (timeLock sample_settings) \<noteq> Some InvalidDate"
    by code_simp
qed

text \<open>
  With a store that rejects every write, generation still returns the capsule
  \<open>5a304be5\<close>; no vault is stored for it, and the error sits in the log.
\<close>

theorem generateZKCapsule_all_or_nothing_counterexample:
  "map_sum id capsule_id
     (fst (generateZKCapsule sample_env full_storage sample_rng 0 1700000001002 1700000001003
        Map.empty sample_metadata sample_settings ''proof'' ''vk'' None None None no_results None))
     = Inr ''5a304be5'' \<and>
   loadPrivateVault full_storage
     (fst (snd (generateZKCapsule sample_env full_storage sample_rng 0 1700000001002 1700000001003
        Map.empty sample_metadata sample_settings ''proof'' ''vk'' None None None no_results None)))
     ''5a304be5'' = None \<and>
   snd (snd (generateZKCapsule sample_env full_storage sample_rng 0 1700000001002 1700000001003
        Map.empty sample_metadata sample_settings ''proof'' ''vk'' None None None no_results None))
     = [Error ''storage full'']"
proof (intro conjI)
  show "map_sum id capsule_id
     (fst (generateZKCapsule sample_env full_storage sample_rng 0 1700000001002 1700000001003
        Map.empty sample_metadata sample_settings ''proof'' ''vk'' None None None no_results None))
     = Inr ''5a304be5''"
    by code_simp
  show "loadPrivateVault full_storage
     (fst (snd (generateZKCapsule sample_env full_storage sample_rng 0 1700000001002 1700000001003
        Map.empty sample_metadata sample_settings ''proof'' ''vk'' None None None no_results None)))
     ''5a304be5'' = None"
    by code_simp
  show "snd (snd (generateZKCapsule sample_env full_storage sample_rng 0 1700000001002 1700000001003
        Map.empty sample_metadata sample_settings ''proof'' ''vk'' None None None no_results None))
     = [Error ''storage full'']"
    by code_simp
qed

section \<open>Properties of the public claims\<close>

lemma pc_time_changed:
  "pc_time env d tp pc = Inr pc' \<Longrightarrow> pc' k \<noteq> pc k \<Longrightarrow> enabled tp \<and> k \<in> date_keys"
  by (auto simp: pc_time_def date_keys_def split: if_splits sum.splits)

lemma pc_location_changed:
  "pc_location env loc lp pc k \<noteq> pc k \<Longrightarrow> enabled lp \<and> k \<in> location_keys"
  by (auto simp: pc_location_def put_claim_def location_keys_def split: if_splits option.splits)

lemma pc_device_changed:
  "pc_device env info dp pc k \<noteq> pc k \<Longrightarrow> enabled dp \<and> k \<in> device_keys"
  by (auto simp: pc_device_def device_keys_def split: if_splits)

lemma pc_identity_changed:
  "pc_identity ip pc k \<noteq> pc k \<Longrightarrow> enabled ip \<and> k \<in> identity_keys"
  by (auto simp: pc_identity_def identity_keys_def split: if_splits)

lemma pc_image_changed:
  "pc_image cid ir pc k \<noteq> pc k \<Longrightarrow> enabled ir \<and> k \<in> image_keys"
  by (auto simp: pc_image_def put_claim_def image_keys_def split: if_splits option.splits)

lemma pc_timeLock_changed:
  "pc_timeLock env tlk pc = Inr pc' \<Longrightarrow> pc' k \<noteq> pc k \<Longrightarrow> enabled tlk \<and> k \<in> time_lock_keys"
  by (auto simp: pc_timeLock_def time_lock_keys_def split: if_splits sum.splits option.splits)

lemma pc_receiverLock_changed:
  "pc_receiverLock rl pc k \<noteq> pc k \<Longrightarrow> enabled rl \<and> k \<in> receiver_lock_keys"
  by (auto simp: pc_receiverLock_def receiver_lock_keys_def split: if_splits)

lemma generatePublicClaims_keys:
  assumes "generatePublicClaims env md ps = Inr pc" and "pc k \<noteq> None"
  shows "(enabled (timeProof ps) \<and> k \<in> date_keys) \<or>
         (enabled (locationProof ps) \<and> k \<in> location_keys) \<or>
         (enabled (deviceProof ps) \<and> k \<in> device_keys) \<or>
         (enabled (identityProof ps) \<and> k \<in> identity_keys) \<or>
         (enabled (imageReveal ps) \<and> k \<in> image_keys) \<or>
         (enabled (timeLock ps) \<and> k \<in> time_lock_keys) \<or>
         (enabled (receiverLock ps) \<and> k \<in> receiver_lock_keys)"
proof -
  define pc1' where "pc1' = pc_time env (newDate (timestamp md)) (timeProof ps) Map.empty"
  have g: "generatePublicClaims env md ps =
      (case pc1' of Inl e \<Rightarrow> Inl e
       | Inr pc1 \<Rightarrow>
          (case pc_timeLock env (timeLock ps)
              (pc_image (ipfsCid md) (imageReveal ps)
                (pc_identity (identityProof ps)
                  (pc_device env (deviceInfo md) (deviceProof ps)
                    (pc_location env (location md) (locationProof ps) pc1)))) of
             Inl e \<Rightarrow> Inl e
           | Inr pc6 \<Rightarrow> Inr (pc_receiverLock (receiverLock ps) pc6)))"
    unfolding generatePublicClaims_def Let_def pc1'_def ..
  obtain pc1 where 1: "pc1' = Inr pc1"
    using assms(1) unfolding g by (cases pc1') simp_all
  define pc2 where "pc2 = pc_location env (location md) (locationProof ps) pc1"
  define pc3 where "pc3 = pc_device env (deviceInfo md) (deviceProof ps) pc2"
  define pc4 where "pc4 = pc_identity (identityProof ps) pc3"
  define pc5 where "pc5 = pc_image (ipfsCid md) (imageReveal ps) pc4"
  have g': "generatePublicClaims env md ps =
      (case pc_timeLock env (timeLock ps) pc5 of
             Inl e \<Rightarrow> Inl e
           | Inr pc6 \<Rightarrow> Inr (pc_receiverLock (receiverLock ps) pc6))"
    unfolding g 1 pc5_def pc4_def pc3_def pc2_def by simp
  obtain pc6 where 6: "pc_timeLock env (timeLock ps) pc5 = Inr pc6"
    and 7: "pc = pc_receiverLock (receiverLock ps) pc6"
    using assms(1) unfolding g' by (cases "pc_timeLock env (timeLock ps) pc5") simp_all
  note 1 = 1 [unfolded pc1'_def]
  show ?thesis
  proof (rule ccontr)
    assume neg: "\<not> ?thesis"
    have "pc1 k = Map.empty k" using pc_time_changed [OF 1, of k] neg by blast
    moreover have "pc2 k = pc1 k" unfolding pc2_def using pc_location_changed neg by blast
    moreover have "pc3 k = pc2 k" unfolding pc3_def using pc_device_changed neg by blast
    moreover have "pc4 k = pc3 k" unfolding pc4_def using pc_identity_changed neg by blast
    moreover have "pc5 k = pc4 k" unfolding pc5_def using pc_image_changed neg by blast
    moreover have "pc6 k = pc5 k" using pc_timeLock_changed [OF 6, of k] neg by blast
    moreover have "pc k = pc6 k" unfolding 7 using pc_receiverLock_changed neg by blast
    ultimately have "pc k = None" by simp
    with assms(2) show False by simp
  qed
qed

lemma put_result_other: "k \<noteq> k' \<Longrightarrow> put_result k' r pc k = pc k"
  by (simp add: put_result_def split: option.splits)

lemma put_claim_other: "k \<noteq> k' \<Longrightarrow> put_claim k' c pc k = pc k"
  by (simp add: put_claim_def split: option.splits)

lemma added_claims_other:
  "k \<notin> derived_keys \<Longrightarrow> add_readable_claims cl (add_circuit_results r pc) k = pc k"
  unfolding derived_keys_def add_readable_claims_def add_circuit_results_def
  by (cases cl) (simp_all add: put_result_other put_claim_other)

lemma date_keys_apart:
  "k \<in> date_keys \<Longrightarrow> k \<notin> location_keys \<and> k \<notin> device_keys \<and> k \<notin> identity_keys \<and> k \<notin> image_keys \<and>
     k \<notin> time_lock_keys \<and> k \<notin> receiver_lock_keys \<and> k \<notin> derived_keys"
  by (auto simp: date_keys_def location_keys_def device_keys_def identity_keys_def image_keys_def
      time_lock_keys_def receiver_lock_keys_def derived_keys_def)

lemma location_keys_apart:
  "k \<in> location_keys \<Longrightarrow> k \<notin> date_keys \<and> k \<notin> device_keys \<and> k \<notin> identity_keys \<and> k \<notin> image_keys \<and>
     k \<notin> time_lock_keys \<and> k \<notin> receiver_lock_keys \<and> k \<notin> derived_keys"
  by (auto simp: date_keys_def location_keys_def device_keys_def identity_keys_def image_keys_def
      time_lock_keys_def receiver_lock_keys_def derived_keys_def)

lemma device_keys_apart:
  "k \<in> device_keys \<Longrightarrow> k \<notin> date_keys \<and> k \<notin> location_keys \<and> k \<notin> identity_keys \<and> k \<notin> image_keys \<and>
     k \<notin> time_lock_keys \<and> k \<notin> receiver_lock_keys \<and> k \<notin> derived_keys"
  by (auto simp: date_keys_def location_keys_def device_keys_def identity_keys_def image_keys_def
      time_lock_keys_def receiver_lock_keys_def derived_keys_def)

lemma identity_keys_apart:
  "k \<in> identity_keys \<Longrightarrow> k \<notin> date_keys \<and> k \<notin> location_keys \<and> k \<notin> device_keys \<and> k \<notin> image_keys \<and>
     k \<notin> time_lock_keys \<and> k \<notin> receiver_lock_keys \<and> k \<notin> derived_keys"
  by (auto simp: date_keys_def location_keys_def device_keys_def identity_keys_def image_keys_def
      time_lock_keys_def receiver_lock_keys_def derived_keys_def)

lemma image_keys_apart:
  "k \<in> image_keys \<Longrightarrow> k \<notin> date_keys \<and> k \<notin> location_keys \<and> k \<notin> device_keys \<and> k \<notin> identity_keys \<and>
     k \<notin> time_lock_keys \<and> k \<notin> receiver_lock_keys \<and> k \<notin> derived_keys"
  by (auto simp: date_keys_def location_keys_def device_keys_def identity_keys_def image_keys_def
      time_lock_keys_def receiver_lock_keys_def derived_keys_def)

lemma time_lock_keys_apart:
  "k \<in> time_lock_keys \<Longrightarrow> k \<notin> date_keys \<and> k \<notin> location_keys \<and> k \<notin> device_keys \<and> k \<notin> identity_keys \<and>
     k \<notin> image_keys \<and> k \<notin> receiver_lock_keys \<and> k \<notin> derived_keys"
  by (auto simp: date_keys_def location_keys_def device_keys_def identity_keys_def image_keys_def
      time_lock_keys_def receiver_lock_keys_def derived_keys_def)

lemma receiver_lock_keys_apart:
  "k \<in> receiver_lock_keys \<Longrightarrow> k \<notin> date_keys \<and> k \<notin> location_keys \<and> k \<notin> device_keys \<and> k \<notin> identity_keys \<and>
     k \<notin> image_keys \<and> k \<notin> time_lock_keys \<and> k \<notin> derived_keys"
  by (auto simp: date_keys_def location_keys_def device_keys_def identity_keys_def image_keys_def
      time_lock_keys_def receiver_lock_keys_def derived_keys_def)

lemma generateZKCapsule_Inr:
  assumes "fst (generateZKCapsule env A rng p now1 now2 store md ps prf vk ipfs url ct results cl) = Inr c"
  shows "\<exists>pc. generatePublicClaims env md ps = Inr pc \<and>
           public_claims c = add_readable_claims cl (add_circuit_results results pc)"
proof (cases "generateOriginalValues env md ps")
  case (Inl e)
  then have "fst (generateZKCapsule env A rng p now1 now2 store md ps prf vk ipfs url ct results cl) = Inl e"
    unfolding generateZKCapsule_def Let_def by simp
  with assms show ?thesis by simp
next
  case ov: (Inr ov)
  show ?thesis
  proof (cases "generateCommitments env md (fst (generateAllSalts rng p))")
    case (Inl e)
    then have "fst (generateZKCapsule env A rng p now1 now2 store md ps prf vk ipfs url ct results cl) = Inl e"
      unfolding generateZKCapsule_def Let_def ov by simp
    with assms show ?thesis by simp
  next
    case cm: (Inr cm)
    show ?thesis
    proof (cases "generatePublicClaims env md ps")
      case (Inl e)
      then have "fst (generateZKCapsule env A rng p now1 now2 store md ps prf vk ipfs url ct results cl) = Inl e"
        unfolding generateZKCapsule_def Let_def ov cm split_beta by simp
      with assms show ?thesis by simp
    next
      case pc: (Inr pc)
      have "\<exists>c' cms. generateZKCapsule env A rng p now1 now2 store md ps prf vk ipfs url ct results cl =
           (Inr c', storePrivateVault A store (generateSimpleHash (photoHash md @ int_toString now1)) cms
                     (fst (generateAllSalts rng p)) ov)
         \<and> capsule_id c' = generateSimpleHash (photoHash md @ int_toString now1)
         \<and> capsule_proof c' = prf
         \<and> public_claims c' = add_readable_claims cl (add_circuit_results results pc)"
        by (rule generateZKCapsule_result [OF ov cm pc])
      then obtain c' where "fst (generateZKCapsule env A rng p now1 now2 store md ps prf vk ipfs url ct results cl) = Inr c'"
        and "public_claims c' = add_readable_claims cl (add_circuit_results results pc)"
        by auto
      with assms pc show ?thesis by simp
    qed
  qed
qed

lemma public_claims_field_key:
  assumes "fst (generateZKCapsule env A rng p now1 now2 store md ps prf vk ipfs url ct results cl) = Inr c"
    and "k \<notin> derived_keys" and "public_claims c k \<noteq> None"
  shows "(enabled (timeProof ps) \<and> k \<in> date_keys) \<or>
         (enabled (locationProof ps) \<and> k \<in> location_keys) \<or>
         (enabled (deviceProof ps) \<and> k \<in> device_keys) \<or>
         (enabled (identityProof ps) \<and> k \<in> identity_keys) \<or>
         (enabled (imageReveal ps) \<and> k \<in> image_keys) \<or>
         (enabled (timeLock ps) \<and> k \<in> time_lock_keys) \<or>
         (enabled (receiverLock ps) \<and> k \<in> receiver_lock_keys)"
proof -
  obtain pc where pc: "generatePublicClaims env md ps = Inr pc"
    and eq: "public_claims c = add_readable_claims cl (add_circuit_results results pc)"
    using generateZKCapsule_Inr [OF assms(1)] by blast
  have "pc k \<noteq> None" using assms(3) unfolding eq added_claims_other [OF assms(2)] .
  then show ?thesis by (rule generatePublicClaims_keys [OF pc])
qed

text \<open>
  Claim C2 (as the code has it).  In every capsule \<open>generateZKCapsule\<close> returns, a
  category whose toggle is off has none of its field keys in \<open>public_claims\<close>: no
  \<open>date_*\<close> key without the time proof, no \<open>location_*\<close> key without the location proof,
  no \<open>device_*\<close> key without the device proof, no \<open>identity_verified\<close>, no
  \<open>image_description\<close> or \<open>image_cid\<close>, no \<open>time_lock_*\<close> key and no \<open>allowed_address\<close>
  without the respective toggle.  The keys of \<open>derived_keys\<close> are outside this statement.
\<close>

theorem disabled_fields_absent:
  assumes "fst (generateZKCapsule env A rng p now1 now2 store md ps prf vk ipfs url ct results cl) = Inr c"
  shows "(\<not> enabled (timeProof ps) \<longrightarrow> (\<forall>k \<in> date_keys. public_claims c k = None)) \<and>
         (\<not> enabled (locationProof ps) \<longrightarrow> (\<forall>k \<in> location_keys. public_claims c k = None)) \<and>
         (\<not> enabled (deviceProof ps) \<longrightarrow> (\<forall>k \<in> device_keys. public_claims c k = None)) \<and>
         (\<not> enabled (identityProof ps) \<longrightarrow> (\<forall>k \<in> identity_keys. public_claims c k = None)) \<and>
         (\<not> enabled (imageReveal ps) \<longrightarrow> (\<forall>k \<in> image_keys. public_claims c k = None)) \<and>
         (\<not> enabled (timeLock ps) \<longrightarrow> (\<forall>k \<in> time_lock_keys. public_claims c k = None)) \<and>
         (\<not> enabled (receiverLock ps) \<longrightarrow> (\<forall>k \<in> receiver_lock_keys. public_claims c k = None))"
proof -
  note fk = public_claims_field_key [OF assms]
  have 1: "\<not> enabled (timeProof ps) \<longrightarrow> (\<forall>k \<in> date_keys. public_claims c k = None)"
    using fk date_keys_apart by blast
  have 2: "\<not> enabled (locationProof ps) \<longrightarrow> (\<forall>k \<in> location_keys. public_claims c k = None)"
    using fk location_keys_apart by blast
  have 3: "\<not> enabled (deviceProof ps) \<longrightarrow> (\<forall>k \<in> device_keys. public_claims c k = None)"
    using fk device_keys_apart by blast
  have 4: "\<not> enabled (identityProof ps) \<longrightarrow> (\<forall>k \<in> identity_keys. public_claims c k = None)"
    using fk identity_keys_apart by blast
  have 5: "\<not> enabled (imageReveal ps) \<longrightarrow> (\<forall>k \<in> image_keys. public_claims c k = None)"
    using fk image_keys_apart by blast
  have 6: "\<not> enabled (timeLock ps) \<longrightarrow> (\<forall>k \<in> time_lock_keys. public_claims c k = None)"
    using fk time_lock_keys_apart by blast
  have 7: "\<not> enabled (receiverLock ps) \<longrightarrow> (\<forall>k \<in> receiver_lock_keys. public_claims c k = None)"
    using fk receiver_lock_keys_apart by blast
  from 1 2 3 4 5 6 7 show ?thesis by blast
qed


lemma generateZKCapsule_returns:
  assumes "newDate (timestamp md) = Date t"
    and "enabled (timeLock ps) \<longrightarrow> unlockTime (timeLock ps) \<noteq> Some InvalidDate"
  shows "\<exists>c. fst (generateZKCapsule env A rng p now1 now2 store md ps prf vk ipfs url ct results cl) = Inr c"
proof -
  define R where "R = generateZKCapsule env A rng p now1 now2 store md ps prf vk ipfs url ct results cl"
  obtain ov where ov: "generateOriginalValues env md ps = Inr ov"
    using generateOriginalValues_ok [OF assms(1)] by blast
  obtain cm where cm: "generateCommitments env md (fst (generateAllSalts rng p)) = Inr cm"
    using generateCommitments_ok [OF assms(1)] by blast
  obtain pc where pc: "generatePublicClaims env md ps = Inr pc"
    using generatePublicClaims_ok [OF assms] by blast
  have "\<exists>c cms. R = (Inr c, storePrivateVault A store
          (generateSimpleHash (photoHash md @ int_toString now1)) cms (fst (generateAllSalts rng p)) ov)
      \<and> capsule_id c = generateSimpleHash (photoHash md @ int_toString now1) \<and> capsule_proof c = prf
      \<and> public_claims c = add_readable_claims cl (add_circuit_results results pc)"
    unfolding R_def by (rule generateZKCapsule_result [OF ov cm pc])
  then have "\<exists>c. fst R = Inr c" by auto
  then show ?thesis unfolding R_def .
qed

theorem disabled_fields_absent_witness:
  "\<not> enabled (timeProof sample_settings) \<and>
   map_sum id (\<lambda>c. public_claims c ''date_month'')
     (fst (generateZKCapsule sample_env memory_storage sample_rng 0 1700000001002 1700000001003
        Map.empty sample_metadata sample_settings ''proof'' ''vk'' None None None no_results None))
     = Inr None"
proof -
  define R where "R = generateZKCapsule sample_env memory_storage sample_rng 0 1700000001002
    1700000001003 Map.empty sample_metadata sample_settings ''proof'' ''vk'' None None None no_results None"
  have off: "\<not> enabled (timeProof sample_settings)"
    by (simp add: sample_settings_def)
  have d: "newDate (timestamp sample_metadata) = Date 1700000000000"
    by (simp add: sample_metadata_def newDate_def)
  have l: "enabled (timeLock sample_settings) \<longrightarrow> unlockTime (timeLock sample_settings) \<noteq> Some InvalidDate"
    by (simp add: sample_settings_def)
  have "\<exists>c. fst R = Inr c" unfolding R_def by (rule generateZKCapsule_returns [OF d l])
  then obtain c where c: "fst R = Inr c" ..
  have "\<not> enabled (timeProof sample_settings) \<longrightarrow> (\<forall>k \<in> date_keys. public_claims c k = None)"
    using disabled_fields_absent [OF c [unfolded R_def]] by (rule conjunct1)
  then have "\<forall>k \<in> date_keys. public_claims c k = None" using off by (rule mp)
  moreover have "''date_month'' \<in> date_keys" by (simp add: date_keys_def)
  ultimately have "public_claims c ''date_month'' = None" by (rule bspec)
  then have "map_sum id (\<lambda>c. public_claims c ''date_month'') (fst R) = Inr None" by (simp add: c)
  with off show ?thesis unfolding R_def by (rule conjI)
qed

text \<open>
  The generation flow \<open>generateZKProof\<close> passes a \<open>claims\<close> object with an entry for every
  category: with the time proof off, the capsule still carries the key \<open>time_claim\<close>,
  with the placeholder \<open>Time not verified\<close>.
\<close>

theorem disabled_field_placeholder_counterexample:
  "\<not> enabled (timeProof sample_settings) \<and>
   map_sum id (\<lambda>c. public_claims c ''time_claim'')
     (fst (generateZKProof sample_env memory_storage sample_rng 0 sample_clock Map.empty
        sample_metadata sample_settings None (Inr ''proof'')))
     = Inr (Some ''Time not verified'')"
proof (rule conjI)
  show "\<not> enabled (timeProof sample_settings)"
    by (simp add: sample_settings_def)
  show "map_sum id (\<lambda>c. public_claims c ''time_claim'')
     (fst (generateZKProof sample_env memory_storage sample_rng 0 sample_clock Map.empty
        sample_metadata sample_settings None (Inr ''proof'')))
     = Inr (Some ''Time not verified'')"
    by code_simp
qed

section \<open>Properties of claim revision\<close>

text \<open>
  Claim C4.  Claim revision keeps identity and proof: for every saved photo, every choice
  of revealed flags and levels (and every clock reading), the capsule
  \<open>generateUpdatedCapsule\<close> returns has the \<open>capsule_id\<close> and the \<open>proof\<close> of the photo's
  capsule, and the same \<open>proof_scheme\<close>, \<open>circuit_version\<close>, \<open>image_hash\<close> and
  \<open>verification_key\<close>.
\<close>

theorem generateUpdatedCapsule_frame:
  "capsule_id (generateUpdatedCapsule now photo rc lv) = capsule_id (zkCapsule photo) \<and>
   capsule_proof (generateUpdatedCapsule now photo rc lv) = capsule_proof (zkCapsule photo) \<and>
   proof_scheme (metadata (generateUpdatedCapsule now photo rc lv)) = proof_scheme (metadata (zkCapsule photo)) \<and>
   circuit_version (metadata (generateUpdatedCapsule now photo rc lv)) =
     circuit_version (metadata (zkCapsule photo)) \<and>
   image_hash (metadata (generateUpdatedCapsule now photo rc lv)) = image_hash (metadata (zkCapsule photo)) \<and>
   verification_key (metadata (generateUpdatedCapsule now photo rc lv)) =
     verification_key (metadata (zkCapsule photo))"
  by (simp add: generateUpdatedCapsule_def Let_def)

theorem generateUpdatedCapsule_frame_witness:
  "capsule_id (generateUpdatedCapsule 1700000002000 sample_photo reveal_time_too sample_levels) = ''5a304be5'' \<and>
   capsule_proof (generateUpdatedCapsule 1700000002000 sample_photo reveal_time_too sample_levels) = ''proof'' \<and>
   verification_key (metadata (generateUpdatedCapsule 1700000002000 sample_photo reveal_time_too sample_levels))
     = ''4e68c9a6''"
  using generateUpdatedCapsule_frame [of 1700000002000 sample_photo reveal_time_too sample_levels]
  by (simp add: sample_photo_def sample_capsule_def)

lemma generateUpdatedCapsule_flags:
  "public_claims (generateUpdatedCapsule now photo rc lv) ''time_within_month'' =
     Some (if reveal_time rc then ''true'' else ''false'') \<and>
   public_claims (generateUpdatedCapsule now photo rc lv) ''location_in_region'' =
     Some (if reveal_location rc then ''true'' else ''false'') \<and>
   public_claims (generateUpdatedCapsule now photo rc lv) ''device_trusted'' =
     Some (if reveal_device rc then ''true'' else ''false'') \<and>
   public_claims (generateUpdatedCapsule now photo rc lv) ''photo_authentic'' =
     Some (if reveal_authentic rc then ''true'' else ''false'') \<and>
   public_claims (generateUpdatedCapsule now photo rc lv) ''image_content_revealed'' =
     Some (if reveal_image rc then ''true'' else ''false'')"
  by (simp add: generateUpdatedCapsule_def Let_def)

lemma generateUpdatedCapsule_claim_texts:
  "public_claims (generateUpdatedCapsule now photo rc lv) ''time_claim'' =
     public_claims (zkCapsule photo) ''time_claim'' \<and>
   public_claims (generateUpdatedCapsule now photo rc lv) ''location_claim'' =
     public_claims (zkCapsule photo) ''location_claim'' \<and>
   public_claims (generateUpdatedCapsule now photo rc lv) ''device_claim'' =
     public_claims (zkCapsule photo) ''device_claim'' \<and>
   public_claims (generateUpdatedCapsule now photo rc lv) ''authenticity_claim'' =
     public_claims (zkCapsule photo) ''authenticity_claim'' \<and>
   public_claims (generateUpdatedCapsule now photo rc lv) ''image_content_claim'' =
     public_claims (zkCapsule photo) ''image_content_claim''"
  by (simp add: generateUpdatedCapsule_def Let_def)

text \<open>
  Claim C3 (as the code has it).  Claim revision never reads the Private Vault and
  cannot fail.  For a capsule whose vault entry is missing, \<open>generateUpdatedCapsule\<close>
  returns a capsule with the same id, in which each revealed category has its flag set to
  \<open>true\<close>; the description shown for a revealed category is the claim text the capsule
  already holds, and the generic \<open>Private\<close> when it holds none.
\<close>

theorem revision_without_vault:
  assumes "loadPrivateVault A store (capsule_id (zkCapsule photo)) = None"
  shows "capsule_id (generateUpdatedCapsule now photo rc lv) = capsule_id (zkCapsule photo) \<and>
    (reveal_time rc \<longrightarrow>
       public_claims (generateUpdatedCapsule now photo rc lv) ''time_within_month'' = Some ''true'' \<and>
       getClaimDescription (Some (photo\<lparr>zkCapsule := generateUpdatedCapsule now photo rc lv\<rparr>)) photo rc ''time''
         = or_else (public_claims (zkCapsule photo) ''time_claim'') ''Private'') \<and>
    (reveal_location rc \<longrightarrow>
       public_claims (generateUpdatedCapsule now photo rc lv) ''location_in_region'' = Some ''true'' \<and>
       getClaimDescription (Some (photo\<lparr>zkCapsule := generateUpdatedCapsule now photo rc lv\<rparr>)) photo rc ''location''
         = or_else (public_claims (zkCapsule photo) ''location_claim'') ''Private'') \<and>
    (reveal_device rc \<longrightarrow>
       public_claims (generateUpdatedCapsule now photo rc lv) ''device_trusted'' = Some ''true'' \<and>
       getClaimDescription (Some (photo\<lparr>zkCapsule := generateUpdatedCapsule now photo rc lv\<rparr>)) photo rc ''device''
         = or_else (public_claims (zkCapsule photo) ''device_claim'') ''Private'') \<and>
    (reveal_authentic rc \<longrightarrow>
       public_claims (generateUpdatedCapsule now photo rc lv) ''photo_authentic'' = Some ''true'' \<and>
       getClaimDescription (Some (photo\<lparr>zkCapsule := generateUpdatedCapsule now photo rc lv\<rparr>)) photo rc ''authentic''
         = or_else (public_claims (zkCapsule photo) ''authenticity_claim'') ''Private'') \<and>
    (reveal_image rc \<longrightarrow>
       public_claims (generateUpdatedCapsule now photo rc lv) ''image_content_revealed'' = Some ''true'' \<and>
       getClaimDescription (Some (photo\<lparr>zkCapsule := generateUpdatedCapsule now photo rc lv\<rparr>)) photo rc ''image''
         = or_else (public_claims (zkCapsule photo) ''image_content_claim'') ''Private'')"
proof -
  have id: "capsule_id (generateUpdatedCapsule now photo rc lv) = capsule_id (zkCapsule photo)"
    by (simp add: generateUpdatedCapsule_def Let_def)
  show ?thesis
    using generateUpdatedCapsule_flags [of now photo rc lv]
      generateUpdatedCapsule_claim_texts [of now photo rc lv]
    by (simp add: getClaimDescription_def claim_or_private_def id)
qed

theorem revision_without_vault_witness:
  "loadPrivateVault memory_storage Map.empty (capsule_id (zkCapsule sample_photo)) = None \<and>
   reveal_time reveal_time_too \<and>
   public_claims (generateUpdatedCapsule 1700000002000 sample_photo reveal_time_too sample_levels)
     ''time_within_month'' = Some ''true''"
proof -
  have v: "loadPrivateVault memory_storage Map.empty (capsule_id (zkCapsule sample_photo)) = None"
    by (simp add: loadPrivateVault_def memory_storage_def)
  have r: "reveal_time reveal_time_too" by (simp add: reveal_time_too_def)
  from revision_without_vault [OF v, of 1700000002000 reveal_time_too sample_levels] r
  have "public_claims (generateUpdatedCapsule 1700000002000 sample_photo reveal_time_too sample_levels)
     ''time_within_month'' = Some ''true''" by blast
  with v r show ?thesis by blast
qed

text \<open>
  The sample capsule hides the time and has no vault entry.  Revealing the time yields a
  capsule with \<open>time_within_month = true\<close>, and the description shown is \<open>Private\<close>.
\<close>

theorem revision_vault_gate_counterexample:
  "loadPrivateVault memory_storage Map.empty (capsule_id (zkCapsule sample_photo)) = None \<and>
   public_claims (zkCapsule sample_photo) ''time_within_month'' = Some ''false'' \<and>
   public_claims (generateUpdatedCapsule 1700000002000 sample_photo reveal_time_too sample_levels)
     ''time_within_month'' = Some ''true'' \<and>
   getClaimDescription
     (Some (sample_photo\<lparr>zkCapsule :=
        generateUpdatedCapsule 1700000002000 sample_photo reveal_time_too sample_levels\<rparr>))
     sample_photo reveal_time_too ''time'' = ''Private''"
  by (simp add: loadPrivateVault_def memory_storage_def sample_photo_def sample_capsule_def
      generateUpdatedCapsule_def getClaimDescription_def claim_or_private_def reveal_time_too_def
      sample_levels_def Let_def)


section \<open>Properties of the verifier\<close>

lemma get_prop_truthy: "truthy v \<Longrightarrow> \<exists>x. get_prop v k = Inr x"
  by (cases "(v, k)" rule: get_prop.cases) simp_all

lemma truthy_Some: "truthy v \<Longrightarrow> v \<noteq> None"
  by (cases v) simp_all

lemma bind_Inr [simp]: "bind (Inr x) f = f x"
  by (simp add: bind_def)

lemma bind_Inl [simp]: "bind (Inl e) f = Inl e"
  by (simp add: bind_def)

lemma check_structure_top:
  "check_structure venv (JObj kvs) =
     (if \<not> truthy (map_of kvs ''capsule_id'') \<or> \<not> truthy (map_of kvs ''public_claims'') \<or>
         \<not> truthy (map_of kvs ''proof'') \<or> \<not> truthy (map_of kvs ''metadata'')
      then Inl missing_fields
      else
        bind (get_prop (map_of kvs ''metadata'') ''verification_key'') (\<lambda>vk.
        bind (get_prop (map_of kvs ''metadata'') ''proof_scheme'') (\<lambda>scheme.
          if \<not> truthy vk \<or> \<not> truthy scheme then Inl bad_metadata
          else
            bind (get_prop (map_of kvs ''proof'') ''a'') (\<lambda>a.
            bind (get_prop (map_of kvs ''proof'') ''b'') (\<lambda>b.
            bind (get_prop (map_of kvs ''proof'') ''c'') (\<lambda>c.
            bind (get_prop (map_of kvs ''metadata'') ''image_hash'') (\<lambda>ih.
            bind (get_prop (map_of kvs ''capsule_id'') ''length'') (\<lambda>len.
              Inr ((truthy a \<and> truthy b \<and> truthy c) \<and> (truthy vk \<and> truthy ih) \<and>
                   (truthy (map_of kvs ''capsule_id'') \<and> gt_zero venv len))))))))))"
  by (simp only: check_structure_def Let_def get_prop.simps bind_Inr)

lemma check_structure_missing:
  assumes "\<not> truthy (map_of kvs ''capsule_id'') \<or> \<not> truthy (map_of kvs ''public_claims'') \<or>
         \<not> truthy (map_of kvs ''proof'') \<or> \<not> truthy (map_of kvs ''metadata'')"
  shows "check_structure venv (JObj kvs) = Inl missing_fields"
  unfolding check_structure_top using assms by simp

lemma check_structure_no_key:
  assumes "truthy (map_of kvs ''capsule_id'')" "truthy (map_of kvs ''public_claims'')"
    "truthy (map_of kvs ''proof'')" "map_of kvs ''metadata'' = Some (JObj m)"
    "\<not> truthy (map_of m ''verification_key'')"
  shows "check_structure venv (JObj kvs) = Inl bad_metadata"
  unfolding check_structure_top using assms by simp

lemma verifyProof_thrown:
  assumes "trim proofData \<noteq> []" "\<not> isIpfsUrl (trim proofData)"
    "JSON_parse venv (trim proofData) = Some parsed" "check_structure venv parsed = Inl e"
  shows "verifyProof env venv A store now st0 proofData =
     st0\<lparr>isVerifying := False, verificationResult := Some Invalid, parsedCapsule := None,
         showFallingPhrases := True, alerts := alerts st0 @ [verification_failed],
         console_errors := console_errors st0 @ [e]\<rparr>"
  using assms by (simp add: verifyProof_def Let_def on_catch_def)

text \<open>
  Claim C5 (as the code has it).  A capsule that lacks \<open>capsule_id\<close>, \<open>public_claims\<close>,
  \<open>proof\<close> or \<open>metadata.verification_key\<close> is rejected, and no exception leaves
  \<open>verifyProof\<close>: the result is \<open>'invalid'\<close>, no capsule is kept, and the one alert
  \<open>Verification Failed\<close> is shown, the same for all four.  Only the error passed to
  \<open>console.error\<close> differs, and only in two ways: \<open>Invalid capsule structure - missing
  required fields\<close> when one of the three top-level fields is missing, \<open>Invalid metadata
  structure\<close> when the verification key is missing and the three are there.
\<close>

theorem verifyProof_rejects_missing_field:
  assumes "trim proofData \<noteq> []" and "\<not> isIpfsUrl (trim proofData)"
    and "JSON_parse venv (trim proofData) = Some (JObj kvs)"
    and "map_of kvs ''capsule_id'' = None \<or> map_of kvs ''public_claims'' = None \<or>
         map_of kvs ''proof'' = None \<or>
         (\<exists>m. map_of kvs ''metadata'' = Some (JObj m) \<and> map_of m ''verification_key'' = None)"
  shows "verificationResult (verifyProof env venv A store now st0 proofData) = Some Invalid \<and>
         parsedCapsule (verifyProof env venv A store now st0 proofData) = None \<and>
         \<not> isVerifying (verifyProof env venv A store now st0 proofData) \<and>
         alerts (verifyProof env venv A store now st0 proofData) = alerts st0 @ [verification_failed] \<and>
         (console_errors (verifyProof env venv A store now st0 proofData) = console_errors st0 @ [missing_fields] \<or>
          console_errors (verifyProof env venv A store now st0 proofData) = console_errors st0 @ [bad_metadata]) \<and>
         (map_of kvs ''capsule_id'' = None \<or> map_of kvs ''public_claims'' = None \<or>
           map_of kvs ''proof'' = None \<longrightarrow>
          console_errors (verifyProof env venv A store now st0 proofData) = console_errors st0 @ [missing_fields]) \<and>
         (truthy (map_of kvs ''capsule_id'') \<and> truthy (map_of kvs ''public_claims'') \<and>
           truthy (map_of kvs ''proof'') \<longrightarrow>
          console_errors (verifyProof env venv A store now st0 proofData) = console_errors st0 @ [bad_metadata])"
proof -
  define cs where "cs = check_structure venv (JObj kvs)"
  have top: "map_of kvs ''capsule_id'' = None \<or> map_of kvs ''public_claims'' = None \<or>
           map_of kvs ''proof'' = None \<Longrightarrow> cs = Inl missing_fields"
    unfolding cs_def by (rule check_structure_missing) auto
  have vk: "truthy (map_of kvs ''capsule_id'') \<and> truthy (map_of kvs ''public_claims'') \<and>
           truthy (map_of kvs ''proof'') \<Longrightarrow> cs = Inl bad_metadata"
  proof -
    assume t: "truthy (map_of kvs ''capsule_id'') \<and> truthy (map_of kvs ''public_claims'') \<and>
           truthy (map_of kvs ''proof'')"
    then have "\<not> (map_of kvs ''capsule_id'' = None \<or> map_of kvs ''public_claims'' = None \<or>
         map_of kvs ''proof'' = None)" by (auto dest: truthy_Some)
    with assms(4) obtain m where "map_of kvs ''metadata'' = Some (JObj m)"
      "map_of m ''verification_key'' = None" by blast
    with t show ?thesis unfolding cs_def by (simp add: check_structure_no_key)
  qed
  have either: "cs = Inl missing_fields \<or> cs = Inl bad_metadata"
  proof (cases "truthy (map_of kvs ''capsule_id'') \<and> truthy (map_of kvs ''public_claims'') \<and>
           truthy (map_of kvs ''proof'')")
    case True
    then show ?thesis using vk by simp
  next
    case False
    then have "cs = Inl missing_fields" unfolding cs_def by (intro check_structure_missing) auto
    then show ?thesis by simp
  qed
  then obtain e where e: "cs = Inl e" "e = missing_fields \<or> e = bad_metadata" by blast
  have r: "verifyProof env venv A store now st0 proofData =
     st0\<lparr>isVerifying := False, verificationResult := Some Invalid, parsedCapsule := None,
         showFallingPhrases := True, alerts := alerts st0 @ [verification_failed],
         console_errors := console_errors st0 @ [e]\<rparr>"
    by (rule verifyProof_thrown [OF assms(1-3) e(1) [unfolded cs_def]])
  show ?thesis unfolding r using e top vk by auto
qed

theorem verifyProof_rejects_missing_field_witness:
  "verificationResult (verifyProof sample_env sample_venv memory_storage Map.empty 1700000000000
      initial_state text_no_proof) = Some Invalid \<and>
   console_errors (verifyProof sample_env sample_venv memory_storage Map.empty 1700000000000
      initial_state text_no_proof) = [missing_fields]"
proof -
  have 1: "trim text_no_proof \<noteq> []" by code_simp
  have 2: "\<not> isIpfsUrl (trim text_no_proof)" by code_simp
  have 3: "JSON_parse sample_venv (trim text_no_proof) = Some (JObj (without_field ''proof'' complete_fields))"
    by code_simp
  have p: "map_of (without_field ''proof'' complete_fields) ''proof'' = None" by code_simp
  then have 4: "map_of (without_field ''proof'' complete_fields) ''capsule_id'' = None \<or>
      map_of (without_field ''proof'' complete_fields) ''public_claims'' = None \<or>
      map_of (without_field ''proof'' complete_fields) ''proof'' = None \<or>
      (\<exists>m. map_of (without_field ''proof'' complete_fields) ''metadata'' = Some (JObj m) \<and>
           map_of m ''verification_key'' = None)" by simp
  have e: "console_errors initial_state = []" by (simp add: initial_state_def)
  from verifyProof_rejects_missing_field [OF 1 2 3 4, of sample_env memory_storage Map.empty
      1700000000000 initial_state] p e
  show ?thesis by simp
qed

text \<open>
  The sample capsule without its \<open>capsule_id\<close>, without its \<open>public_claims\<close> and without
  its \<open>proof\<close> leave the verifier in one and the same state, logged error included; without
  the verification key the alert is still the same.
\<close>

theorem verifyProof_same_error_counterexample:
  "verifyProof sample_env sample_venv memory_storage Map.empty 1700000000000 initial_state text_no_capsule_id
     = verifyProof sample_env sample_venv memory_storage Map.empty 1700000000000 initial_state
         text_no_public_claims \<and>
   verifyProof sample_env sample_venv memory_storage Map.empty 1700000000000 initial_state text_no_public_claims
     = verifyProof sample_env sample_venv memory_storage Map.empty 1700000000000 initial_state text_no_proof \<and>
   alerts (verifyProof sample_env sample_venv memory_storage Map.empty 1700000000000 initial_state
       text_no_verification_key)
     = alerts (verifyProof sample_env sample_venv memory_storage Map.empty 1700000000000 initial_state
         text_no_proof)"
proof (intro conjI)
  show "verifyProof sample_env sample_venv memory_storage Map.empty 1700000000000 initial_state text_no_capsule_id
     = verifyProof sample_env sample_venv memory_storage Map.empty 1700000000000 initial_state
         text_no_public_claims"
    by code_simp
  show "verifyProof sample_env sample_venv memory_storage Map.empty 1700000000000 initial_state text_no_public_claims
     = verifyProof sample_env sample_venv memory_storage Map.empty 1700000000000 initial_state text_no_proof"
    by code_simp
  show "alerts (verifyProof sample_env sample_venv memory_storage Map.empty 1700000000000 initial_state
       text_no_verification_key)
     = alerts (verifyProof sample_env sample_venv memory_storage Map.empty 1700000000000 initial_state
         text_no_proof)"
    by code_simp
qed

text \<open>
  Claim C7.  For every capsule that carries a \<open>time_lock_until\<close> claim (a truthy one,
  which is the test the code makes): the state is locked exactly when the claim is a date
  and the current time is before it; then the time remaining is the difference, positive,
  and no locked data is exposed.  Whenever the state is not locked (from that date on),
  the entry \<open>@private_vault_<capsule_id>\<close> of the store is read, and the text shown is
  its \<open>original_values.time_lock_data\<close> when the entry exists with a non-empty such
  value, and \<open>No data available\<close> otherwise.  A claim that is not a date is never locked,
  and the call ends with a \<open>RangeError\<close> after the state is set.
\<close>

theorem checkTimeLockStatus_state_machine:
  assumes "get_prop (map_of kvs ''public_claims'') ''time_lock_until'' = Inr (Some until)"
    and "truthy (Some until)"
  shows
    "(tl_isLocked (fst (checkTimeLockStatus env venv A store now st (JObj kvs))) \<longleftrightarrow>
        (\<exists>T. Date_of venv until = Date T \<and> now < T)) \<and>
     (\<forall>T. Date_of venv until = Date T \<longrightarrow>
        snd (checkTimeLockStatus env venv A store now st (JObj kvs)) = None \<and>
        (now < T \<longrightarrow>
           tl_timeRemaining (fst (checkTimeLockStatus env venv A store now st (JObj kvs))) = T - now \<and>
           0 < tl_timeRemaining (fst (checkTimeLockStatus env venv A store now st (JObj kvs))) \<and>
           tl_lockedData (fst (checkTimeLockStatus env venv A store now st (JObj kvs))) = None)) \<and>
     (Date_of venv until = InvalidDate \<longrightarrow>
        snd (checkTimeLockStatus env venv A store now st (JObj kvs)) = Some RangeError) \<and>
     (\<not> tl_isLocked (fst (checkTimeLockStatus env venv A store now st (JObj kvs))) \<longrightarrow>
        tl_timeRemaining (fst (checkTimeLockStatus env venv A store now st (JObj kvs))) = 0 \<and>
        tl_lockedData (fst (checkTimeLockStatus env venv A store now st (JObj kvs))) =
          (case getItem A store (''@private_vault_'' @ template_str venv (map_of kvs ''capsule_id'')) of
             Inl e \<Rightarrow> None
           | Inr None \<Rightarrow> None
           | Inr (Some v) \<Rightarrow>
               if truthy_str (original_values v ''time_lock_data'')
               then original_values v ''time_lock_data'' else None) \<and>
        shown_locked_data (fst (checkTimeLockStatus env venv A store now st (JObj kvs))) =
          (case getItem A store (''@private_vault_'' @ template_str venv (map_of kvs ''capsule_id'')) of
             Inl e \<Rightarrow> ''No data available''
           | Inr None \<Rightarrow> ''No data available''
           | Inr (Some v) \<Rightarrow> or_else (original_values v ''time_lock_data'') ''No data available''))"
proof -
  define key where "key = ''@private_vault_'' @ template_str venv (map_of kvs ''capsule_id'')"
  define found where "found =
     (case getItem A store key of
        Inl e \<Rightarrow> None
      | Inr None \<Rightarrow> None
      | Inr (Some v) \<Rightarrow>
          if truthy_str (original_values v ''time_lock_data'')
          then original_values v ''time_lock_data'' else None)"
  have shown: "or_else found ''No data available'' =
     (case getItem A store key of
        Inl e \<Rightarrow> ''No data available''
      | Inr None \<Rightarrow> ''No data available''
      | Inr (Some v) \<Rightarrow> or_else (original_values v ''time_lock_data'') ''No data available'')"
    unfolding found_def
    by (auto split: sum.splits option.splits elim: truthy_str.elims)
  have load: "(case loadPrivateVault A store (template_str venv (map_of kvs ''capsule_id'')) of
       None \<Rightarrow> None
     | Some v \<Rightarrow> if truthy_str (original_values v ''time_lock_data'')
                 then original_values v ''time_lock_data'' else None) = found"
    unfolding found_def key_def loadPrivateVault_def
    by (simp split: sum.splits option.splits)
  show ?thesis
  proof (cases "Date_of venv until")
    case (Date T)
    show ?thesis
    proof (cases "now < T")
      case True
      then show ?thesis using assms Date
        by (simp add: checkTimeLockStatus_def Let_def)
    next
      case False
      have "fst (checkTimeLockStatus env venv A store now st (JObj kvs)) =
          \<lparr>tl_isLocked = False, tl_unlockTime = Some (Date T), tl_lockedData = found,
            tl_currentTime = Some (Date now), tl_timeRemaining = 0\<rparr>"
        and "snd (checkTimeLockStatus env venv A store now st (JObj kvs)) = None"
        using assms Date False by (simp_all add: checkTimeLockStatus_def Let_def load)
      then show ?thesis using Date False shown
        by (simp add: shown_locked_data_def key_def found_def)
    qed
  next
    case InvalidDate
    have "fst (checkTimeLockStatus env venv A store now st (JObj kvs)) =
        \<lparr>tl_isLocked = False, tl_unlockTime = Some InvalidDate, tl_lockedData = found,
          tl_currentTime = Some (Date now), tl_timeRemaining = 0\<rparr>"
      and "snd (checkTimeLockStatus env venv A store now st (JObj kvs)) = Some RangeError"
      using assms InvalidDate by (simp_all add: checkTimeLockStatus_def Let_def load)
    then show ?thesis using InvalidDate shown
      by (simp add: shown_locked_data_def key_def found_def)
  qed
qed

text \<open>
  One second before the unlock time the sample capsule is locked with 1000 ms remaining;
  one second after it the vault stored under \<open>@private_vault_5a304be5\<close> is read and
  \<open>secret-X\<close> is shown.
\<close>

theorem checkTimeLockStatus_state_machine_witness:
  "tl_isLocked (fst (checkTimeLockStatus sample_env sample_venv memory_storage secret_store
       1893455999000 no_time_lock (JObj (with_time_lock ''2030-01-01T00:00:00.000Z'')))) \<and>
   tl_timeRemaining (fst (checkTimeLockStatus sample_env sample_venv memory_storage secret_store
       1893455999000 no_time_lock (JObj (with_time_lock ''2030-01-01T00:00:00.000Z'')))) = 1000 \<and>
   tl_lockedData (fst (checkTimeLockStatus sample_env sample_venv memory_storage secret_store
       1893455999000 no_time_lock (JObj (with_time_lock ''2030-01-01T00:00:00.000Z'')))) = None \<and>
   \<not> tl_isLocked (fst (checkTimeLockStatus sample_env sample_venv memory_storage secret_store
       1893456001000 no_time_lock (JObj (with_time_lock ''2030-01-01T00:00:00.000Z'')))) \<and>
   shown_locked_data (fst (checkTimeLockStatus sample_env sample_venv memory_storage secret_store
       1893456001000 no_time_lock (JObj (with_time_lock ''2030-01-01T00:00:00.000Z'')))) = ''secret-X''"
proof -
  have 1: "get_prop (map_of (with_time_lock ''2030-01-01T00:00:00.000Z'') ''public_claims'') ''time_lock_until''
      = Inr (Some (JStr ''2030-01-01T00:00:00.000Z''))"
    by code_simp
  have 2: "truthy (Some (JStr ''2030-01-01T00:00:00.000Z''))" by simp
  have 3: "Date_of sample_venv (JStr ''2030-01-01T00:00:00.000Z'') = Date 1893456000000"
    by (simp add: sample_venv_def)
  have v: "(case getItem memory_storage secret_store
              (''@private_vault_'' @
               template_str sample_venv (map_of (with_time_lock ''2030-01-01T00:00:00.000Z'') ''capsule_id'')) of
             Inl e \<Rightarrow> ''No data available''
           | Inr None \<Rightarrow> ''No data available''
           | Inr (Some v) \<Rightarrow> or_else (original_values v ''time_lock_data'') ''No data available'')
          = ''secret-X''"
    by code_simp
  note before = checkTimeLockStatus_state_machine [OF 1 2, where env = sample_env
      and venv = sample_venv and A = memory_storage and store = secret_store
      and now = 1893455999000 and st = no_time_lock]
  note after = checkTimeLockStatus_state_machine [OF 1 2, where env = sample_env
      and venv = sample_venv and A = memory_storage and store = secret_store
      and now = 1893456001000 and st = no_time_lock]
  show ?thesis using before after v by (simp add: 3)
qed

lemma checkTimeLockStatus_not_a_date:
  "\<not> tl_isLocked (fst (checkTimeLockStatus sample_env sample_venv memory_storage secret_store
       0 no_time_lock (JObj (with_time_lock ''garbage'')))) \<and>
   tl_lockedData (fst (checkTimeLockStatus sample_env sample_venv memory_storage secret_store
       0 no_time_lock (JObj (with_time_lock ''garbage'')))) = Some ''secret-X'' \<and>
   snd (checkTimeLockStatus sample_env sample_venv memory_storage secret_store
       0 no_time_lock (JObj (with_time_lock ''garbage''))) = Some RangeError"
  by code_simp

lemma checkWalletLockStatus_no_throw:
  assumes "truthy (map_of kvs ''public_claims'')"
  shows "snd (checkWalletLockStatus venv A store st (JObj kvs)) = None"
proof -
  obtain x where x: "get_prop (map_of kvs ''public_claims'') ''allowed_address'' = Inr x"
    using get_prop_truthy [OF assms] by blast
  show ?thesis by (simp add: checkWalletLockStatus_def x Let_def)
qed

lemma check_structure_complete:
  assumes "map_of kvs ''capsule_id'' = Some (JStr cid)" "cid \<noteq> []"
    "truthy (map_of kvs ''public_claims'')"
    "map_of kvs ''proof'' = Some (JObj pf)"
    "truthy (map_of pf ''a'')" "truthy (map_of pf ''b'')" "truthy (map_of pf ''c'')"
    "map_of kvs ''metadata'' = Some (JObj m)"
    "truthy (map_of m ''verification_key'')" "truthy (map_of m ''proof_scheme'')"
    "truthy (map_of m ''image_hash'')"
  shows "check_structure venv (JObj kvs) = Inr True"
  unfolding check_structure_top using assms by simp

lemma checkTimeLockStatus_thrown:
  assumes "truthy (map_of kvs ''public_claims'')"
    "get_prop (map_of kvs ''public_claims'') ''time_lock_until'' = Inr until"
  shows "snd (checkTimeLockStatus env venv A store now st (JObj kvs)) =
     (case until of
        None \<Rightarrow> None
      | Some u \<Rightarrow> if truthy (Some u) \<and> Date_of venv u = InvalidDate then Some RangeError else None)"
proof (cases until)
  case None
  then show ?thesis using assms by (simp add: checkTimeLockStatus_def)
next
  case (Some u)
  show ?thesis
  proof (cases "Date_of venv u")
    case (Date T)
    then show ?thesis using assms Some
      by (simp add: checkTimeLockStatus_def Let_def)
  next
    case InvalidDate
    then show ?thesis using assms Some
      by (simp add: checkTimeLockStatus_def Let_def)
  qed
qed

lemma verifyProof_structural:
  assumes "trim proofData \<noteq> []" and "\<not> isIpfsUrl (trim proofData)"
    and "JSON_parse venv (trim proofData) = Some (JObj kvs)"
    and "map_of kvs ''capsule_id'' = Some (JStr cid)" and "cid \<noteq> []"
    and "truthy (map_of kvs ''public_claims'')"
    and "map_of kvs ''proof'' = Some (JObj pf)"
    and "truthy (map_of pf ''a'')" and "truthy (map_of pf ''b'')" and "truthy (map_of pf ''c'')"
    and "map_of kvs ''metadata'' = Some (JObj m)"
    and "truthy (map_of m ''verification_key'')" and "truthy (map_of m ''proof_scheme'')"
    and "truthy (map_of m ''image_hash'')"
    and "get_prop (map_of kvs ''public_claims'') ''time_lock_until'' = Inr until"
  shows "verificationResult (verifyProof env venv A store now st0 proofData) =
     (case until of
        None \<Rightarrow> Some Valid
      | Some u \<Rightarrow> if truthy (Some u) \<and> Date_of venv u = InvalidDate then Some Invalid else Some Valid)"
proof -
  have cs: "check_structure venv (JObj kvs) = Inr True"
    by (rule check_structure_complete [OF assms(4-14)])
  note t = checkTimeLockStatus_thrown [OF assms(6) assms(15)]
  note w = checkWalletLockStatus_no_throw [OF assms(6)]
  show ?thesis
  proof (cases until)
    case None
    then show ?thesis
      by (simp add: verifyProof_def Let_def split_beta assms(1-3) cs t w)
  next
    case (Some u)
    then show ?thesis
      by (simp add: verifyProof_def Let_def split_beta assms(1-3) cs t w on_catch_def)
  qed
qed

text \<open>
  Claim C6.  The verifier reports a structurally complete capsule as valid unless its
  \<open>time_lock_until\<close> claim is not a date (lemma \<open>verifyProof_structural\<close>): then the
  \<open>console.log\<close> at the end of \<open>checkTimeLockStatus\<close> throws a \<open>RangeError\<close>, which the
  \<open>catch\<close> of \<open>verifyProof\<close> turns into \<open>'invalid'\<close>.  The sample capsule locked until
  \<open>garbage\<close> parses, passes every structural check, and is reported invalid.
\<close>

theorem verifyProof_invalid_time_lock_evaluation:
  "JSON_parse sample_venv (trim text_locked_garbage) = Some (JObj (with_time_lock ''garbage'')) \<and>
   check_structure sample_venv (JObj (with_time_lock ''garbage'')) = Inr True \<and>
   Date_of sample_venv (JStr ''garbage'') = InvalidDate \<and>
   verificationResult (verifyProof sample_env sample_venv memory_storage Map.empty 1700000000000
      initial_state text_locked_garbage) = Some Invalid \<and>
   console_errors (verifyProof sample_env sample_venv memory_storage Map.empty 1700000000000
      initial_state text_locked_garbage) = [RangeError]"
proof (intro conjI)
  show "JSON_parse sample_venv (trim text_locked_garbage) = Some (JObj (with_time_lock ''garbage''))"
    by code_simp
  show "check_structure sample_venv (JObj (with_time_lock ''garbage'')) = Inr True"
    by code_simp
  show "Date_of sample_venv (JStr ''garbage'') = InvalidDate"
    by code_simp
  show "verificationResult (verifyProof sample_env sample_venv memory_storage Map.empty 1700000000000
      initial_state text_locked_garbage) = Some Invalid"
    by code_simp
  show "console_errors (verifyProof sample_env sample_venv memory_storage Map.empty 1700000000000
      initial_state text_locked_garbage) = [RangeError]"
    by code_simp
qed


theorem verifyProof_invalid_time_lock_evaluation_witness:
  "verificationResult (verifyProof sample_env sample_venv memory_storage Map.empty 1700000000000
      initial_state text_locked_garbage) \<noteq> Some Valid"
  using verifyProof_invalid_time_lock_evaluation by simp

end
